theory Spec2Isabelle
  imports Main "HOL-Library.Word"
begin

unbundle bit_operations_syntax

text \<open>
  A shallow embedding of two Go files of the proposer: \<open>proposer/op/proposer/prove.go\<close>
  (the passes that poll, retry and request proofs) and the batch-decoder utilities
  (\<open>CustomBytes32\<close>, \<open>GetSpanBatchRanges\<close>, \<open>GetL1SearchBoundaries\<close>). Unsigned 64-bit
  integers are words, so \<open>+\<close> and \<open>-\<close> wrap around as in Go. A function that returns
  an error returns a sum, with the error on the left; a function that changes the
  database or talks to the prover takes the state and returns the new one; a task
  started with \<open>go\<close> is returned to the caller and runs as a function of its own. What lies
  outside the two files (the database package, the HTTP and RPC clients, the clock, the
  JSON decoder) is a parameter of the functions that use it.
\<close>

section \<open>Common types\<close>

type_synonym u64 = "64 word"
type_synonym byte = "8 word"

text \<open>
  Go error values. \<open>Err m\<close> is an error with message \<open>m\<close> (\<open>errors.New\<close>, or an opaque
  error of a library, a database or an RPC client); \<open>Wrap m e\<close> is
  \<open>fmt.Errorf("m: %w", e)\<close> (also where the source formats the inner error with
  \<open>%v\<close>); \<open>InvalidLength n\<close> is
  \<open>fmt.Errorf("invalid length for Bytes32: got %d, want 32", n)\<close>.
\<close>

datatype error = Err string | Wrap string error | InvalidLength nat

text \<open>
  The ways a Go function can fail to deliver its result: it returns a non-nil error, it
  panics at run time, or it ends the process (\<open>log.Fatalf\<close>).
\<close>

datatype failure = Returned error | Panic string | Fatal string

section \<open>utils: CustomBytes32\<close>

text \<open>
  \<open>encoding/hex\<close>: the value of one hex digit (\<open>0-9\<close>, \<open>a-f\<close>, \<open>A-F\<close>), and
  \<open>hex.DecodeString\<close>, which reads two digits per byte, reports the first invalid
  byte, and reports an odd length otherwise.
\<close>

definition fromHexChar :: "char \<Rightarrow> byte option" where
  "fromHexChar c =
     (let n = (of_char c :: nat) in
      if 48 \<le> n \<and> n \<le> 57 then Some (of_nat (n - 48))
      else if 97 \<le> n \<and> n \<le> 102 then Some (of_nat (n - 87))
      else if 65 \<le> n \<and> n \<le> 70 then Some (of_nat (n - 55))
      else None)"

datatype hex_error = InvalidByteError char | ErrLength

fun hex_DecodeString :: "string \<Rightarrow> hex_error + byte list" where
  "hex_DecodeString [] = Inr []"
| "hex_DecodeString [p] =
     (case fromHexChar p of None \<Rightarrow> Inl (InvalidByteError p) | Some a \<Rightarrow> Inl ErrLength)"
| "hex_DecodeString (p # q # rest) =
     (case fromHexChar p of
        None \<Rightarrow> Inl (InvalidByteError p)
      | Some a \<Rightarrow>
          (case fromHexChar q of
             None \<Rightarrow> Inl (InvalidByteError q)
           | Some b \<Rightarrow>
               (case hex_DecodeString rest of
                  Inl e \<Rightarrow> Inl e
                | Inr bs \<Rightarrow> Inr ((push_bit 4 a OR b) # bs))))"

text \<open>
  go-ethereum's \<open>hexutil.Decode\<close> and \<open>common.ParseHexOrString\<close>: the latter decodes
  a \<open>0x\<close>-prefixed string and returns the raw bytes of a string without the prefix.
\<close>

definition has0xPrefix :: "string \<Rightarrow> bool" where
  "has0xPrefix input =
     (case input of
        c0 # c1 # _ \<Rightarrow> c0 = CHR ''0'' \<and> (c1 = CHR ''x'' \<or> c1 = CHR ''X'')
      | _ \<Rightarrow> False)"

definition ErrEmptyString :: error where "ErrEmptyString = Err ''empty hex string''"
definition ErrMissingPrefix :: error where "ErrMissingPrefix = Err ''hex string without 0x prefix''"
definition ErrSyntax :: error where "ErrSyntax = Err ''invalid hex string''"
definition ErrOddLength :: error where "ErrOddLength = Err ''hex string of odd length''"

definition hexutil_Decode :: "string \<Rightarrow> error + byte list" where
  "hexutil_Decode input =
     (if input = [] then Inl ErrEmptyString
      else if \<not> has0xPrefix input then Inl ErrMissingPrefix
      else (case hex_DecodeString (drop 2 input) of
              Inl (InvalidByteError _) \<Rightarrow> Inl ErrSyntax
            | Inl ErrLength \<Rightarrow> Inl ErrOddLength
            | Inr b \<Rightarrow> Inr b))"

definition ParseHexOrString :: "string \<Rightarrow> error + byte list" where
  "ParseHexOrString str =
     (case hexutil_Decode str of
        Inl e \<Rightarrow> if e = ErrMissingPrefix then Inr (map of_char str) else Inl e
      | Inr b \<Rightarrow> Inr b)"

text \<open>
  \<open>strings.TrimPrefix\<close>, and \<open>fmt.Sprintf("%064s", s)\<close>: the string padded on the left
  with \<open>0\<close> to a width of 64. Go counts the width in runes; a \<open>char\<close> here is one byte,
  which is one rune for every ASCII string, and a string with a byte outside ASCII is
  not a hex string whatever its padding.
\<close>

definition TrimPrefix :: "string \<Rightarrow> string \<Rightarrow> string" where
  "TrimPrefix s pre = (if take (length pre) s = pre then drop (length pre) s else s)"

definition Sprintf_064s :: "string \<Rightarrow> string" where
  "Sprintf_064s s = replicate (64 - length s) (CHR ''0'') @ s"

text \<open>
  \<open>CustomBytes32.UnmarshalJSON\<close>. The first argument is \<open>json.Unmarshal\<close> into a
  string (the JSON library is not part of the repository); the result is the new
  content of the receiver, which is written only when no error is returned.
\<close>

definition UnmarshalJSON :: "(string \<Rightarrow> error + string) \<Rightarrow> string \<Rightarrow> error + byte list" where
  "UnmarshalJSON json_Unmarshal data =
     (case json_Unmarshal data of
        Inl err \<Rightarrow> Inl err
      | Inr s0 \<Rightarrow>
          (let s1 = TrimPrefix s0 ''0x'';
               s2 = Sprintf_064s s1;
               s3 = ''0x'' @ s2
           in case ParseHexOrString s3 of
                Inl err \<Rightarrow> Inl err
              | Inr bytes \<Rightarrow>
                  if length bytes \<noteq> 32 then Inl (InvalidLength (length bytes))
                  else Inr bytes))"

text \<open>A string of hex digits only, as \<open>encoding/hex\<close> reads them.\<close>

definition hexdigits :: "string \<Rightarrow> bool" where
  "hexdigits h = list_all (\<lambda>c. fromHexChar c \<noteq> None) h"

section \<open>utils: the L1 search boundaries\<close>

text \<open>
  \<open>GetL1SearchBoundaries\<close>. The rollup client and the L1 client are the two injected
  read-only interfaces: \<open>OutputAtBlock\<close> gives the number of the L1 origin of the output
  at an L2 block, \<open>BlockByNumber\<close> the timestamp of an L1 block. The L1 client is asked
  for \<open>big.NewInt(int64(n))\<close>, the signed reading of the 64-bit number. All block
  numbers and times are \<open>uint64\<close>; the division \<open>60/l1BlockTime\<close> is Go's integer
  division, which panics on a zero divisor.
\<close>

definition GetL1SearchBoundaries ::
  "(u64 \<Rightarrow> error + u64) \<Rightarrow> (int \<Rightarrow> error + u64) \<Rightarrow> u64 \<Rightarrow> u64 \<Rightarrow> failure + (u64 \<times> u64)" where
  "GetL1SearchBoundaries OutputAtBlock BlockByNumber startBlock endBlock =
     (case OutputAtBlock startBlock of
        Inl err \<Rightarrow> Inl (Returned (Wrap ''failed to get output at start block'' err))
      | Inr startL1Origin \<Rightarrow>
     (case BlockByNumber (sint startL1Origin) of
        Inl err \<Rightarrow> Inl (Returned (Wrap ''failed to get block at start L1 origin'' err))
      | Inr startBlockTime \<Rightarrow>
     (case BlockByNumber (sint (startL1Origin - 1)) of
        Inl err \<Rightarrow> Inl (Returned (Wrap ''failed to get block at start L1 origin - 1'' err))
      | Inr prevBlockTime \<Rightarrow>
     (let l1BlockTime = startBlockTime - prevBlockTime in
      case OutputAtBlock endBlock of
        Inl err \<Rightarrow> Inl (Returned (Wrap ''failed to get output at end block'' err))
      | Inr endOrigin \<Rightarrow>
          if l1BlockTime = 0 then Inl (Panic ''runtime error: integer divide by zero'')
          else Inr (startL1Origin, endOrigin + (60 div l1BlockTime) * 10)))))"

text \<open>L1 chains for examples: block \<open>n\<close> carries the timestamp \<open>7 * n\<close>, or \<open>12 * n\<close>, or
  \<open>24 * n\<close> (every second slot missed), or \<open>61 * n\<close>, or every block carries the same
  timestamp; and a rollup node whose L2 block \<open>b\<close> has the L1 origin \<open>b\<close>.\<close>

definition l1_chain_7s :: "int \<Rightarrow> error + u64" where
  "l1_chain_7s n = Inr (word_of_int (7 * n))"

definition l1_chain_12s :: "int \<Rightarrow> error + u64" where
  "l1_chain_12s n = Inr (word_of_int (12 * n))"

definition l1_chain_24s :: "int \<Rightarrow> error + u64" where
  "l1_chain_24s n = Inr (word_of_int (24 * n))"

definition l1_chain_61s :: "int \<Rightarrow> error + u64" where
  "l1_chain_61s n = Inr (word_of_int (61 * n))"

definition l1_chain_stalled :: "int \<Rightarrow> error + u64" where
  "l1_chain_stalled n = Inr 1700000000"

definition rollup_same_origin :: "u64 \<Rightarrow> error + u64" where
  "rollup_same_origin b = Inr b"

section \<open>utils: span batch ranges\<close>

record SpanBatchRange =
  Start :: u64
  End :: u64

text \<open>
  The fields of \<open>rollup.Config\<close> that \<open>TimestampToBlock\<close> reads.
\<close>

record rollup_Config =
  Genesis_L2Time :: u64
  BlockTime :: u64
  Genesis_L2_Number :: u64

text \<open>
  A \<open>derive.Batch\<close> as \<open>GetSpanBatchRanges\<close> sees it: a singular batch with its
  timestamp, a span batch with the timestamp of its first block and its block count, or
  the nil batch that \<open>processFrames\<close> appends when a batch could not be derived (calling
  a method on it panics). The timestamp of a span batch is read from its first block, so
  asking a span batch without blocks for it panics as well.
\<close>

datatype Batch = SingularBatch u64 | SpanBatch u64 nat | NilBatch

definition TimestampToBlock :: "rollup_Config \<Rightarrow> u64 \<Rightarrow> failure + u64" where
  "TimestampToBlock rollupCfg l2Timestamp =
     (if BlockTime rollupCfg = 0 then Inl (Panic ''runtime error: integer divide by zero'')
      else Inr (((l2Timestamp - Genesis_L2Time rollupCfg) div BlockTime rollupCfg)
                + Genesis_L2_Number rollupCfg))"

definition GetTimestamp :: "Batch \<Rightarrow> failure + u64" where
  "GetTimestamp b =
     (case b of
        SingularBatch ts \<Rightarrow> Inr ts
      | SpanBatch ts n \<Rightarrow>
          if n = 0 then Inl (Panic ''runtime error: index out of range [0] with length 0'')
          else Inr ts
      | NilBatch \<Rightarrow> Inl (Panic ''runtime error: invalid memory address or nil pointer dereference''))"

text \<open>\<open>AsSpanBatch\<close>, followed by \<open>GetBlockCount\<close> on success.\<close>

definition AsSpanBatch :: "Batch \<Rightarrow> nat option" where
  "AsSpanBatch b = (case b of SpanBatch ts n \<Rightarrow> Some n | _ \<Rightarrow> None)"

text \<open>
  The loop over the batches of one channel. \<open>Go_on rs\<close>: the loop ended and the outer
  loop goes on with the ranges \<open>rs\<close>; \<open>Return rs\<close>: the function returned \<open>rs\<close>.
\<close>

datatype 'a flow = Go_on 'a | Return 'a

fun batches_loop ::
  "rollup_Config \<Rightarrow> u64 \<Rightarrow> u64 \<Rightarrow> Batch list \<Rightarrow> SpanBatchRange list
     \<Rightarrow> failure + SpanBatchRange list flow" where
  "batches_loop rollupCfg startBlock endBlock [] ranges = Inr (Go_on ranges)"
| "batches_loop rollupCfg startBlock endBlock (b # bs) ranges =
     (case GetTimestamp b of
        Inl f \<Rightarrow> Inl f
      | Inr ts \<Rightarrow>
     (case TimestampToBlock rollupCfg ts of
        Inl f \<Rightarrow> Inl f
      | Inr batchStartBlock \<Rightarrow>
     (case AsSpanBatch b of
        None \<Rightarrow> Inr (Return (ranges @ [\<lparr>Start = startBlock, End = endBlock\<rparr>]))
      | Some blockCount \<Rightarrow>
          (let batchEndBlock = batchStartBlock + of_nat blockCount - 1 in
           if batchStartBlock > endBlock \<or> batchEndBlock < startBlock
           then batches_loop rollupCfg startBlock endBlock bs ranges
           else batches_loop rollupCfg startBlock endBlock bs
                  (ranges @ [\<lparr>Start = max startBlock batchStartBlock,
                              End = min endBlock batchEndBlock\<rparr>])))))"

text \<open>
  The loop over the channels, in the order the map iteration yields them. Each
  channel is given by \<open>ch.Batches\<close>, the batches \<open>processFrames\<close> read from it.
\<close>

fun channels_loop ::
  "rollup_Config \<Rightarrow> u64 \<Rightarrow> u64 \<Rightarrow> Batch list list \<Rightarrow> SpanBatchRange list
     \<Rightarrow> failure + SpanBatchRange list" where
  "channels_loop rollupCfg startBlock endBlock [] ranges = Inr ranges"
| "channels_loop rollupCfg startBlock endBlock (ch # chs) ranges =
     (if length ch = 0 then Inl (Fatal ''no span batches in channel'')
      else (case batches_loop rollupCfg startBlock endBlock ch ranges of
              Inl f \<Rightarrow> Inl f
            | Inr (Return rs) \<Rightarrow> Inr rs
            | Inr (Go_on rs) \<Rightarrow> channels_loop rollupCfg startBlock endBlock chs rs))"

definition GetSpanBatchRanges ::
  "Batch list list \<Rightarrow> rollup_Config \<Rightarrow> u64 \<Rightarrow> u64 \<Rightarrow> failure + SpanBatchRange list" where
  "GetSpanBatchRanges channels rollupCfg startBlock endBlock =
     channels_loop rollupCfg startBlock endBlock channels []"

text \<open>
  For stating what the loops compute: the block a timestamp maps to when the block time
  is not zero, the range one span batch contributes, if any, and the span batches (with
  at least one block).
\<close>

definition t2b :: "rollup_Config \<Rightarrow> u64 \<Rightarrow> u64" where
  "t2b rollupCfg ts =
     ((ts - Genesis_L2Time rollupCfg) div BlockTime rollupCfg) + Genesis_L2_Number rollupCfg"

definition clipped :: "rollup_Config \<Rightarrow> u64 \<Rightarrow> u64 \<Rightarrow> Batch \<Rightarrow> SpanBatchRange option" where
  "clipped rollupCfg startBlock endBlock b =
     (case b of
        SpanBatch ts n \<Rightarrow>
          (let bstart = t2b rollupCfg ts; bend = bstart + of_nat n - 1 in
           if bstart > endBlock \<or> bend < startBlock then None
           else Some \<lparr>Start = max startBlock bstart, End = min endBlock bend\<rparr>)
      | _ \<Rightarrow> None)"

definition is_span :: "Batch \<Rightarrow> bool" where
  "is_span b = (case b of SpanBatch ts n \<Rightarrow> 0 < n | _ \<Rightarrow> False)"

text \<open>An example: genesis at time 0 and block 0, one L2 block every 2 seconds.\<close>

definition example_rollupCfg :: rollup_Config where
  "example_rollupCfg = \<lparr>Genesis_L2Time = 0, BlockTime = 2, Genesis_L2_Number = 0\<rparr>"

text \<open>A channel of span batches only, with at least one batch.\<close>

definition span_channel :: "Batch list \<Rightarrow> bool" where
  "span_channel ch = (ch \<noteq> [] \<and> list_all is_span ch)"

section \<open>proposer: proof requests and the database interface\<close>

text \<open>
  \<open>ent.ProofRequest\<close> with the enums \<open>proofrequest.Type\<close> and
  \<open>proofrequest.Status\<close>. Block numbers and times are \<open>uint64\<close>, the id is an \<open>int\<close>.
\<close>

datatype Type = SPAN | AGG

datatype Status = UNREQ | REQ | COMPLETE | FAILED

record ProofRequest =
  ID :: int
  Type :: Type
  StartBlock :: u64
  EndBlock :: u64
  Status :: Status
  RequestAddedTime :: u64
  ProverRequestID :: string
  ProofRequestTime :: u64
  L1BlockNumber :: u64
  L1BlockHash :: string
  Proof :: "byte list"

text \<open>
  The methods of \<open>l.db\<close> that the passes call, over a database state \<open>'db\<close>. Each
  operation is atomic: it returns an error and leaves the database as it was, or it
  returns its result with the new database. The package that implements them is not
  among the sources, so the passes below take the implementation as a parameter.
\<close>

record 'db ProofDB =
  GetProofsFailedOnServer :: "'db \<Rightarrow> error + ProofRequest list"
  GetAllPendingProofs :: "'db \<Rightarrow> error + ProofRequest list"
  AddProof :: "int \<Rightarrow> byte list \<Rightarrow> 'db \<Rightarrow> error + 'db"
  UpdateProofStatus :: "int \<Rightarrow> Status \<Rightarrow> 'db \<Rightarrow> error + 'db"
  NewEntryWithReqAddedTimestamp :: "Type \<Rightarrow> u64 \<Rightarrow> u64 \<Rightarrow> u64 \<Rightarrow> 'db \<Rightarrow> error + 'db"
  GetNextUnrequestedProof :: "'db \<Rightarrow> error + ProofRequest option"
  AddL1BlockInfoToAggRequest ::
    "u64 \<Rightarrow> u64 \<Rightarrow> u64 \<Rightarrow> string \<Rightarrow> 'db \<Rightarrow> error + (ProofRequest \<times> 'db)"
  GetNumberOfProofsWithStatus :: "Status \<Rightarrow> 'db \<Rightarrow> error + int"
  SetProverRequestID :: "int \<Rightarrow> string \<Rightarrow> 'db \<Rightarrow> error + 'db"
  GetConsecutiveSpanProofs :: "u64 \<Rightarrow> u64 \<Rightarrow> 'db \<Rightarrow> error + byte list list"

text \<open>
  The body of a request to the prover server before \<open>json.Marshal\<close> (which cannot fail
  on these two structs), and the ways one HTTP exchange ends: the client timed out, the
  request could not be sent, the body could not be read, the JSON could not be decoded,
  or the decoded response arrived.
\<close>

datatype http_body = SpanProofRequest u64 u64 | AggProofRequest "byte list list" string

datatype 'a http_result =
  TimedOut error | SendFailed error | ReadFailed error | DecodeFailed error | Response 'a

text \<open>
  \<open>L2OutputSubmitter\<close>: the database, the configuration values the passes read, and
  the outside world as oracles: \<open>http_NewRequest\<close> (an error when the request cannot be
  built from the configured server URL and the path), \<open>client_Post\<close> and \<open>client_Get\<close>
  (the HTTP exchanges with the prover server), \<open>time_Now_Unix\<close> (the \<open>n\<close>-th reading of the
  wall clock, in seconds) and \<open>checkpointBlockHash\<close> (the checkpoint transaction, which
  yields a block number and the hex of its hash).
\<close>

record 'db L2OutputSubmitter =
  dbi :: "'db ProofDB"
  ProofTimeout :: u64
  MaxConcurrentProofRequests :: u64
  http_NewRequest :: "string \<Rightarrow> error option"
  client_Post :: "string \<Rightarrow> http_body \<Rightarrow> string http_result"
  client_Get :: "string \<Rightarrow> (string \<times> byte list) http_result"
  time_Now_Unix :: "nat \<Rightarrow> int"
  checkpointBlockHash :: "error + (u64 \<times> string)"

text \<open>
  What the passes change: the database, the requests posted to the prover server (in
  order), and the number of clock readings taken so far.
\<close>

record 'db world =
  db :: 'db
  posted :: "(string \<times> http_body) list"
  ticks :: nat

section \<open>proposer: the prover gateway\<close>

definition RequestProofFromServer ::
  "'db L2OutputSubmitter \<Rightarrow> string \<Rightarrow> http_body \<Rightarrow> 'db world \<Rightarrow> 'db world \<times> (error + string)" where
  "RequestProofFromServer l urlPath jsonBody w =
     (case http_NewRequest l urlPath of
        Some err \<Rightarrow> (w, Inl (Wrap ''failed to create request'' err))
      | None \<Rightarrow>
          (let w' = w\<lparr>posted := posted w @ [(urlPath, jsonBody)]\<rparr> in
           case client_Post l urlPath jsonBody of
             TimedOut err \<Rightarrow> (w', Inl (Wrap ''request timed out after 3 minutes'' err))
           | SendFailed err \<Rightarrow> (w', Inl (Wrap ''failed to send request'' err))
           | ReadFailed err \<Rightarrow> (w', Inl (Wrap ''error reading the response body'' err))
           | DecodeFailed err \<Rightarrow> (w', Inl (Wrap ''error decoding JSON response'' err))
           | Response proofID \<Rightarrow> (w', Inr proofID)))"

definition GetProofStatus ::
  "'db L2OutputSubmitter \<Rightarrow> string \<Rightarrow> error + (string \<times> byte list)" where
  "GetProofStatus l proofId =
     (case http_NewRequest l (''status/'' @ proofId) of
        Some err \<Rightarrow> Inl (Wrap ''failed to create request'' err)
      | None \<Rightarrow>
          (case client_Get l (''status/'' @ proofId) of
             TimedOut err \<Rightarrow> Inl (Wrap ''request timed out after 30 seconds'' err)
           | SendFailed err \<Rightarrow> Inl (Wrap ''failed to send request'' err)
           | ReadFailed err \<Rightarrow> Inl (Wrap ''error reading the response body'' err)
           | DecodeFailed err \<Rightarrow> Inl (Wrap ''error decoding JSON response'' err)
           | Response r \<Rightarrow> Inr r))"

definition RequestSpanProof ::
  "'db L2OutputSubmitter \<Rightarrow> u64 \<Rightarrow> u64 \<Rightarrow> 'db world \<Rightarrow> 'db world \<times> (error + string)" where
  "RequestSpanProof l l2Start l2End w =
     RequestProofFromServer l ''request_span_proof'' (SpanProofRequest l2Start l2End) w"

definition RequestAggProof ::
  "'db L2OutputSubmitter \<Rightarrow> u64 \<Rightarrow> u64 \<Rightarrow> string \<Rightarrow> 'db world \<Rightarrow> 'db world \<times> (error + string)" where
  "RequestAggProof l start end l1BlockHash w =
     (case GetConsecutiveSpanProofs (dbi l) (start + 1) end (db w) of
        Inl err \<Rightarrow> (w, Inl (Wrap ''failed to get subproofs'' err))
      | Inr subproofs \<Rightarrow>
          RequestProofFromServer l ''request_agg_proof'' (AggProofRequest subproofs l1BlockHash) w)"

text \<open>
  \<open>RequestOPSuccinctProof\<close>. The third branch of the source (\<open>unknown proof type\<close>) has
  no counterpart: the enum has the two values \<open>SPAN\<close> and \<open>AGG\<close> only. The result is the
  world after the call and the error returned (\<open>None\<close> for \<open>nil\<close>).
\<close>

definition RequestOPSuccinctProof ::
  "'db L2OutputSubmitter \<Rightarrow> ProofRequest \<Rightarrow> 'db world \<Rightarrow> 'db world \<times> error option" where
  "RequestOPSuccinctProof l p w =
     (let prevConfirmedBlock = StartBlock p - 1;
          (w1, r) =
            (case Type p of
               AGG \<Rightarrow>
                 (case RequestAggProof l prevConfirmedBlock (EndBlock p) (L1BlockHash p) w of
                    (w', Inl err) \<Rightarrow> (w', Inl (Wrap ''failed to request AGG proof'' err))
                  | (w', Inr proofId) \<Rightarrow> (w', Inr proofId))
             | SPAN \<Rightarrow>
                 (case RequestSpanProof l prevConfirmedBlock (EndBlock p) w of
                    (w', Inl err) \<Rightarrow> (w', Inl (Wrap ''failed to request SPAN proof'' err))
                  | (w', Inr proofId) \<Rightarrow> (w', Inr proofId)))
      in case r of
           Inl err \<Rightarrow> (w1, Some err)
         | Inr proofId \<Rightarrow>
             (case SetProverRequestID (dbi l) (ID p) proofId (db w1) of
                Inl err \<Rightarrow> (w1, Some (Wrap ''failed to set prover request ID'' err))
              | Inr d \<Rightarrow> (w1\<lparr>db := d\<rparr>, None)))"

section \<open>proposer: the retry policy\<close>

text \<open>
  The \<open>for i := 0; i < 2; i++\<close> loop of \<open>RetryRequest\<close>, with the number of iterations
  left: each iteration inserts \<open>[tmpStart, tmpEnd]\<close> and moves on to
  \<open>[tmpEnd + 1, req.EndBlock]\<close>.
\<close>

fun retry_span_loop ::
  "'db ProofDB \<Rightarrow> u64 \<Rightarrow> nat \<Rightarrow> u64 \<Rightarrow> u64 \<Rightarrow> 'db \<Rightarrow> 'db \<times> error option" where
  "retry_span_loop dbops reqEndBlock 0 tmpStart tmpEnd d = (d, None)"
| "retry_span_loop dbops reqEndBlock (Suc n) tmpStart tmpEnd d =
     (case NewEntryWithReqAddedTimestamp dbops SPAN tmpStart tmpEnd 0 d of
        Inl err \<Rightarrow> (d, Some err)
      | Inr d' \<Rightarrow> retry_span_loop dbops reqEndBlock n (tmpEnd + 1) reqEndBlock d')"

definition RetryRequest ::
  "'db L2OutputSubmitter \<Rightarrow> ProofRequest \<Rightarrow> 'db \<Rightarrow> 'db \<times> error option" where
  "RetryRequest l req d =
     (if Type req = AGG then
        (case NewEntryWithReqAddedTimestamp (dbi l) AGG (StartBlock req) (EndBlock req) 0 d of
           Inl err \<Rightarrow> (d, Some err)
         | Inr d' \<Rightarrow> (d', None))
      else
        (let tmpStart = StartBlock req;
             tmpEnd = tmpStart + ((EndBlock req - tmpStart) div 2)
         in retry_span_loop (dbi l) (EndBlock req) 2 tmpStart tmpEnd d))"

section \<open>proposer: pass A, ProcessPendingProofs\<close>


text \<open>\<open>time.Now().Unix()\<close>: the next reading of the clock.\<close>

definition time_Now :: "'db L2OutputSubmitter \<Rightarrow> 'db world \<Rightarrow> int \<times> 'db world" where
  "time_Now l w = (time_Now_Unix l (ticks w), w\<lparr>ticks := Suc (ticks w)\<rparr>)"

text \<open>
  The body of the second loop, for one pending request: the world after it and the
  error that ends the pass, if any.
\<close>

definition process_pending ::
  "'db L2OutputSubmitter \<Rightarrow> ProofRequest \<Rightarrow> 'db world \<Rightarrow> 'db world \<times> error option" where
  "process_pending l req w =
     (case GetProofStatus l (ProverRequestID req) of
        Inl err \<Rightarrow> (w, Some err)
      | Inr (status, proof) \<Rightarrow>
          if status = ''PROOF_FULFILLED'' then
            (case AddProof (dbi l) (ID req) proof (db w) of
               Inl err \<Rightarrow> (w, Some err)
             | Inr d \<Rightarrow> (w\<lparr>db := d\<rparr>, None))
          else
            (let (unix, w1) = time_Now l w;
                 timeout = ((word_of_int unix :: u64) > ProofRequestTime req + ProofTimeout l)
             in if timeout \<or> status = ''PROOF_UNCLAIMED'' then
                  (case UpdateProofStatus (dbi l) (ID req) FAILED (db w1) of
                     Inl err \<Rightarrow> (w1, Some err)
                   | Inr d \<Rightarrow>
                       (case RetryRequest l req d of
                          (d', Some err) \<Rightarrow>
                            (w1\<lparr>db := d'\<rparr>, Some (Wrap ''failed to retry request'' err))
                        | (d', None) \<Rightarrow> (w1\<lparr>db := d'\<rparr>, None)))
                else (w1, None)))"



section \<open>proposer: pass B, RequestQueuedProofs\<close>


text \<open>
  \<open>RequestQueuedProofs\<close>. The function starts the task with \<open>go\<close> and returns \<open>nil\<close> at
  once. The result is the world at the return, the error returned (\<open>None\<close> for \<open>nil\<close>), and the
  record for which a task was started, if any: the task has not run yet, and what it
  does later is \<open>request_task\<close> for that record.
\<close>

definition RequestQueuedProofs ::
  "'db L2OutputSubmitter \<Rightarrow> 'db world \<Rightarrow> 'db world \<times> error option \<times> ProofRequest option" where
  "RequestQueuedProofs l w =
     (case GetNextUnrequestedProof (dbi l) (db w) of
        Inl err \<Rightarrow> (w, Some (Wrap ''failed to get unrequested proofs'' err), None)
      | Inr None \<Rightarrow> (w, None, None)
      | Inr (Some nextProofToRequest) \<Rightarrow>
          if Type nextProofToRequest = AGG then
            (if L1BlockHash nextProofToRequest = '''' then
               (case checkpointBlockHash l of
                  Inl err \<Rightarrow> (w, Some err, None)
                | Inr (blockNumber, blockHash) \<Rightarrow>
                    (case AddL1BlockInfoToAggRequest (dbi l) (StartBlock nextProofToRequest)
                            (EndBlock nextProofToRequest) blockNumber blockHash (db w) of
                       Inl err \<Rightarrow> (w, None, None)
                     | Inr (updated, d) \<Rightarrow> (w\<lparr>db := d\<rparr>, None, None)))
             else (w, None, Some nextProofToRequest))
          else
            (case GetNumberOfProofsWithStatus (dbi l) REQ (db w) of
               Inl err \<Rightarrow> (w, Some (Wrap ''failed to count requested proofs'' err), None)
             | Inr currentRequestedProofs \<Rightarrow>
                 if currentRequestedProofs \<ge> sint (MaxConcurrentProofRequests l)
                 then (w, None, None)
                 else (w, None, Some nextProofToRequest)))"

section \<open>The request ledger\<close>

text \<open>
  The package behind \<open>l.db\<close> is not among the sources. The ledger below follows
  sections 3 and 4.1 of the specification: the records in the order of their insertion.
\<close>

type_synonym ledger = "ProofRequest list"

text \<open>Modelled from the spec: the \<open>id\<close> of section 3, "opaque monotonically increasing
  identifier, assigned at insert"; the database package that assigns it is missing.
  The next id is one more than every id in the ledger.\<close>

definition next_id :: "ledger \<Rightarrow> int" where
  "next_id rows = fold max (map ID rows) 0 + 1"

text \<open>Modelled from the spec: the record that \<open>insert(type, start, end,
  request_added_time)\<close> of section 4.1 creates (the missing
  \<open>NewEntryWithReqAddedTimestamp\<close>): state \<open>UNREQ\<close>, empty \<open>prover_request_id\<close> and
  \<open>proof\<close>; \<open>proof_request_time\<close> 0 and the L1 checkpoint empty/zero as in section 3.\<close>

definition new_request :: "int \<Rightarrow> Type \<Rightarrow> u64 \<Rightarrow> u64 \<Rightarrow> u64 \<Rightarrow> ProofRequest" where
  "new_request i t s e added =
     \<lparr>ID = i, Type = t, StartBlock = s, EndBlock = e, Status = UNREQ,
      RequestAddedTime = added, ProverRequestID = '''', ProofRequestTime = 0,
      L1BlockNumber = 0, L1BlockHash = '''', Proof = []\<rparr>"

text \<open>Modelled from the spec: \<open>insert\<close> of section 4.1 (the missing
  \<open>NewEntryWithReqAddedTimestamp\<close>): "creates a new record in state UNREQ with empty
  prover_request_id and proof".\<close>

definition ledger_insert :: "Type \<Rightarrow> u64 \<Rightarrow> u64 \<Rightarrow> u64 \<Rightarrow> ledger \<Rightarrow> ledger" where
  "ledger_insert t s e added rows = rows @ [new_request (next_id rows) t s e added]"

text \<open>Modelled from the spec: \<open>next_unrequested\<close> of section 4.1 (the missing
  \<open>GetNextUnrequestedProof\<close>): "returns one record with status = UNREQ, chosen
  deterministically (lowest id first). Returns nothing if none exists."\<close>

definition next_unrequested :: "ledger \<Rightarrow> ProofRequest option" where
  "next_unrequested rows =
     (case filter (\<lambda>r. Status r = UNREQ) rows of
        [] \<Rightarrow> None
      | u # us \<Rightarrow> Some (arg_min_list ID (u # us)))"

text \<open>Modelled from the spec: \<open>count_by_status\<close> of section 4.1 (the missing
  \<open>GetNumberOfProofsWithStatus\<close>).\<close>

definition count_by_status :: "Status \<Rightarrow> ledger \<Rightarrow> int" where
  "count_by_status st rows = int (length (filter (\<lambda>r. Status r = st) rows))"

text \<open>Modelled from the spec: \<open>get_failed_on_server\<close> of section 4.1 (the missing
  \<open>GetProofsFailedOnServer\<close>): "records with status = FAILED AND prover_request_id =
  empty".\<close>

definition get_failed_on_server :: "ledger \<Rightarrow> ProofRequest list" where
  "get_failed_on_server rows =
     filter (\<lambda>r. Status r = FAILED \<and> ProverRequestID r = '''') rows"

text \<open>Modelled from the spec: \<open>get_all_pending\<close> of section 4.1 (the missing
  \<open>GetAllPendingProofs\<close>): "records with status = REQ AND prover_request_id not
  empty".\<close>

definition get_all_pending :: "ledger \<Rightarrow> ProofRequest list" where
  "get_all_pending rows =
     filter (\<lambda>r. Status r = REQ \<and> ProverRequestID r \<noteq> '''') rows"

text \<open>Modelled from the spec: \<open>set_prover_request_id(id, s)\<close> of section 4.1 (the
  missing \<open>SetProverRequestID\<close>).\<close>

definition set_prover_request_id :: "int \<Rightarrow> string \<Rightarrow> ledger \<Rightarrow> ledger" where
  "set_prover_request_id i s rows =
     map (\<lambda>r. if ID r = i then r\<lparr>ProverRequestID := s\<rparr> else r) rows"

text \<open>Modelled from the spec: \<open>update_status(id, new_status)\<close> of section 4.1 (the
  missing \<open>UpdateProofStatus\<close>), with \<open>proof_request_time\<close> of section 3: "wall-clock
  seconds when the record transitioned to REQ". The first argument is the wall clock of
  the ledger.\<close>

definition update_status :: "u64 \<Rightarrow> int \<Rightarrow> Status \<Rightarrow> ledger \<Rightarrow> ledger" where
  "update_status clock i st rows =
     map (\<lambda>r. if ID r = i
               then r\<lparr>Status := st,
                      ProofRequestTime := (if st = REQ then clock else ProofRequestTime r)\<rparr>
               else r) rows"

text \<open>Modelled from the spec: \<open>add_proof(id, bytes)\<close> of section 4.1 (the missing
  \<open>AddProof\<close>): "sets proof and transitions to COMPLETE atomically; fails if status was
  not REQ".\<close>

definition add_proof :: "int \<Rightarrow> byte list \<Rightarrow> ledger \<Rightarrow> error + ledger" where
  "add_proof i bytes rows =
     (if list_ex (\<lambda>r. ID r = i \<and> Status r = REQ) rows
      then Inr (map (\<lambda>r. if ID r = i then r\<lparr>Status := COMPLETE, Proof := bytes\<rparr> else r) rows)
      else Inl (Err ''proof request is not in status REQ''))"

text \<open>Modelled from the spec: \<open>attach_l1_checkpoint(start, end, l1_number, l1_hash)\<close>
  of section 4.1 (the missing \<open>AddL1BlockInfoToAggRequest\<close>): "updates the matching AGG
  record" and returns it. The matching record is the first \<open>AGG\<close> record with this
  range; with none the operation fails.\<close>

fun attach_l1_checkpoint ::
  "u64 \<Rightarrow> u64 \<Rightarrow> u64 \<Rightarrow> string \<Rightarrow> ledger \<Rightarrow> error + (ProofRequest \<times> ledger)" where
  "attach_l1_checkpoint s e n h [] = Inl (Err ''no matching proof request'')"
| "attach_l1_checkpoint s e n h (r # rows) =
     (if Type r = AGG \<and> StartBlock r = s \<and> EndBlock r = e
      then Inr (r\<lparr>L1BlockNumber := n, L1BlockHash := h\<rparr>,
                r\<lparr>L1BlockNumber := n, L1BlockHash := h\<rparr> # rows)
      else (case attach_l1_checkpoint s e n h rows of
              Inl err \<Rightarrow> Inl err
            | Inr (u, rows') \<Rightarrow> Inr (u, r # rows')))"

text \<open>The first result of a list of attempts.\<close>

fun first_some :: "'a option list \<Rightarrow> 'a option" where
  "first_some [] = None"
| "first_some (None # xs) = first_some xs"
| "first_some (Some x # xs) = Some x"

text \<open>Modelled from the spec: \<open>get_consecutive_span_proofs(start, end)\<close> of section
  4.1 (the missing \<open>GetConsecutiveSpanProofs\<close>): "returns the ordered proof blobs for
  SPAN records in state COMPLETE that tile [start, end] without gap or overlap; fails if
  no such tiling exists". The search tries every completed span that begins at the
  front of what is left to cover; a tiling has no more pieces than the ledger has
  records, which bounds its depth.\<close>

fun tile_from :: "nat \<Rightarrow> ledger \<Rightarrow> u64 \<Rightarrow> u64 \<Rightarrow> byte list list option" where
  "tile_from 0 rows s e = None"
| "tile_from (Suc n) rows s e =
     first_some
       (map (\<lambda>r. if EndBlock r = e then Some [Proof r]
                  else if EndBlock r < e
                       then map_option ((#) (Proof r)) (tile_from n rows (EndBlock r + 1) e)
                       else None)
            (filter (\<lambda>r. Type r = SPAN \<and> Status r = COMPLETE \<and> StartBlock r = s
                          \<and> StartBlock r \<le> EndBlock r) rows))"

text \<open>Modelled from the spec: \<open>get_consecutive_span_proofs\<close> of section 4.1 (the missing
  \<open>GetConsecutiveSpanProofs\<close>): the tiling found by the search above, or the failure.\<close>

definition get_consecutive_span_proofs :: "u64 \<Rightarrow> u64 \<Rightarrow> ledger \<Rightarrow> error + byte list list" where
  "get_consecutive_span_proofs s e rows =
     (case tile_from (length rows) rows s e of
        None \<Rightarrow> Inl (Err ''no consecutive span proofs cover the range'')
      | Some proofs \<Rightarrow> Inr proofs)"

text \<open>Modelled from the spec: the operations of section 4.1 put together as the
  implementation of the database interface (the missing database package). Apart from
  \<open>add_proof\<close>, the checkpoint and the tiling, whose failures section 4.1 names, no
  operation fails. \<open>clock\<close> is the wall clock the ledger stamps records with.\<close>

definition ledger_db :: "u64 \<Rightarrow> ledger ProofDB" where
  "ledger_db clock =
     \<lparr>GetProofsFailedOnServer = (\<lambda>rows. Inr (get_failed_on_server rows)),
      GetAllPendingProofs = (\<lambda>rows. Inr (get_all_pending rows)),
      AddProof = add_proof,
      UpdateProofStatus = (\<lambda>i st rows. Inr (update_status clock i st rows)),
      NewEntryWithReqAddedTimestamp = (\<lambda>t s e added rows. Inr (ledger_insert t s e added rows)),
      GetNextUnrequestedProof = (\<lambda>rows. Inr (next_unrequested rows)),
      AddL1BlockInfoToAggRequest = attach_l1_checkpoint,
      GetNumberOfProofsWithStatus = (\<lambda>st rows. Inr (count_by_status st rows)),
      SetProverRequestID = (\<lambda>i s rows. Inr (set_prover_request_id i s rows)),
      GetConsecutiveSpanProofs = get_consecutive_span_proofs\<rparr>"

section \<open>Examples\<close>

text \<open>
  A proposer over the ledger: at most two concurrent requests, a proof timeout of one
  hour, a prover server that accepts every request and reports every proof as still in
  the works, and a clock that stands at 5000 seconds.
\<close>

definition example_submitter :: "ledger L2OutputSubmitter" where
  "example_submitter =
     \<lparr>dbi = ledger_db 5000,
      ProofTimeout = 3600,
      MaxConcurrentProofRequests = 2,
      http_NewRequest = (\<lambda>path. None),
      client_Post = (\<lambda>path body. Response ''proof-1''),
      client_Get = (\<lambda>path. Response (''PROOF_PENDING'', [])),
      time_Now_Unix = (\<lambda>n. 5000),
      checkpointBlockHash = Inr (77, ''0xabc'')\<rparr>"

text \<open>The same proposer with a prover server that answers every poll with the given
  status and proof.\<close>

definition submitter_polling :: "string \<Rightarrow> byte list \<Rightarrow> ledger L2OutputSubmitter" where
  "submitter_polling status proof =
     example_submitter\<lparr>client_Get := (\<lambda>path. Response (status, proof))\<rparr>"

text \<open>The same proposer over a database that cannot write the L1 checkpoint.\<close>

definition submitter_failing_checkpoint_write :: "ledger L2OutputSubmitter" where
  "submitter_failing_checkpoint_write =
     example_submitter
       \<lparr>dbi := (ledger_db 5000)
          \<lparr>AddL1BlockInfoToAggRequest := (\<lambda>s e n h rows. Inl (Err ''database is locked''))\<rparr>\<rparr>"

definition world_of :: "ledger \<Rightarrow> ledger world" where
  "world_of rows = \<lparr>db = rows, posted = [], ticks = 0\<rparr>"


text \<open>A pending span request, with the time at which it was requested.\<close>

definition pending_span :: "u64 \<Rightarrow> ProofRequest" where
  "pending_span requested =
     \<lparr>ID = 1, Type = SPAN, StartBlock = 100, EndBlock = 199, Status = REQ,
      RequestAddedTime = 0, ProverRequestID = ''proof-1'', ProofRequestTime = requested,
      L1BlockNumber = 0, L1BlockHash = '''', Proof = []\<rparr>"

text \<open>A request in state \<open>REQ\<close> with its prover request id and the time of the request.\<close>

definition requested :: "int \<Rightarrow> Type \<Rightarrow> u64 \<Rightarrow> u64 \<Rightarrow> string \<Rightarrow> u64 \<Rightarrow> ProofRequest" where
  "requested i t s e proofId time =
     (new_request i t s e 0)\<lparr>Status := REQ, ProverRequestID := proofId, ProofRequestTime := time\<rparr>"









section \<open>Notions for stating what pass A does to the ledger\<close>




definition successors_in :: "ProofRequest \<Rightarrow> ledger \<Rightarrow> bool" where
  "successors_in req rows =
     (if Type req = AGG
      then list_ex (\<lambda>x. x = new_request (ID x) AGG (StartBlock req) (EndBlock req) 0) rows
      else (let s = StartBlock req; e = EndBlock req; m = s + (e - s) div 2
            in list_ex (\<lambda>x. x = new_request (ID x) SPAN s m 0 \<and>
                              list_ex (\<lambda>y. y = new_request (ID x + 1) SPAN (m + 1) e 0) rows)
                 rows))"


section \<open>Theorems: CustomBytes32\<close>

lemma hex_DecodeString_digits:
  "hexdigits h \<Longrightarrow> even (length h) \<Longrightarrow>
     \<exists>bs. hex_DecodeString h = Inr bs \<and> 2 * length bs = length h"
proof (induction h rule: hex_DecodeString.induct)
  case 1
  then show ?case by simp
next
  case (2 p)
  then show ?case by simp
next
  case (3 p q rest)
  from "3.prems" obtain a b where ab: "fromHexChar p = Some a" "fromHexChar q = Some b"
    and r: "hexdigits rest" "even (length rest)"
    by (auto simp: hexdigits_def)
  from "3.IH"[OF ab r] obtain bs
    where "hex_DecodeString rest = Inr bs" "2 * length bs = length rest"
    by blast
  with ab show ?case by simp
qed

lemma hex_DecodeString_length:
  "hex_DecodeString h = Inr bs \<Longrightarrow> length h = 2 * length bs"
  by (induction h arbitrary: bs rule: hex_DecodeString.induct)
     (auto split: option.splits sum.splits)

lemma TrimPrefix_0x: "TrimPrefix (CHR ''0'' # CHR ''x'' # h) ''0x'' = h"
  by (simp add: TrimPrefix_def)

lemma TrimPrefix_digits: "hexdigits h \<Longrightarrow> TrimPrefix h ''0x'' = h"
  by (cases h rule: hex_DecodeString.cases)
     (auto simp: TrimPrefix_def hexdigits_def fromHexChar_def)

lemma hexdigits_pad: "hexdigits h \<Longrightarrow> hexdigits (Sprintf_064s h)"
  by (auto simp: hexdigits_def Sprintf_064s_def fromHexChar_def list_all_iff)

lemma Sprintf_064s_idem: "Sprintf_064s (Sprintf_064s h) = Sprintf_064s h"
  by (simp add: Sprintf_064s_def)

lemma length_Sprintf_064s: "length (Sprintf_064s h) = max 64 (length h)"
  by (simp add: Sprintf_064s_def)

lemma ParseHexOrString_0x:
  "ParseHexOrString (''0x'' @ s) =
     (case hex_DecodeString s of
        Inl (InvalidByteError c) \<Rightarrow> Inl ErrSyntax
      | Inl ErrLength \<Rightarrow> Inl ErrOddLength
      | Inr b \<Rightarrow> Inr b)"
  by (auto simp: ParseHexOrString_def hexutil_Decode_def has0xPrefix_def ErrMissingPrefix_def
        ErrSyntax_def ErrOddLength_def split: sum.splits hex_error.splits)

lemma UnmarshalJSON_string:
  "json d = Inr s \<Longrightarrow> UnmarshalJSON json d = UnmarshalJSON Inr s"
  by (simp add: UnmarshalJSON_def)

lemma UnmarshalJSON_accepts:
  assumes "json d = Inr (pre @ h)" "pre = [] \<or> pre = ''0x''" "hexdigits h" "length h \<le> 64"
  shows "\<exists>b. UnmarshalJSON json d = Inr b \<and> length b = 32"
proof -
  have t: "TrimPrefix (pre @ h) ''0x'' = h"
    using assms(2,3) by (auto simp: TrimPrefix_digits TrimPrefix_0x)
  have "hexdigits (Sprintf_064s h)" "even (length (Sprintf_064s h))"
    using assms(3,4) by (simp_all add: hexdigits_pad length_Sprintf_064s max_def)
  then obtain bs where bs: "hex_DecodeString (Sprintf_064s h) = Inr bs"
      "2 * length bs = length (Sprintf_064s h)"
    using hex_DecodeString_digits by blast
  with assms(4) have "length bs = 32"
    by (simp add: length_Sprintf_064s max_def split: if_splits)
  with bs(1) show ?thesis
    by (simp add: UnmarshalJSON_def assms(1) t ParseHexOrString_0x del: append.simps)
qed

lemma UnmarshalJSON_padded:
  assumes "json d = Inr (pre @ h)" "json d' = Inr (pre @ Sprintf_064s h)"
    "pre = [] \<or> pre = ''0x''" "hexdigits h"
  shows "UnmarshalJSON json d = UnmarshalJSON json d'"
proof -
  have t: "TrimPrefix (pre @ h) ''0x'' = h"
    using assms(3,4) by (auto simp: TrimPrefix_digits TrimPrefix_0x)
  have t': "TrimPrefix (pre @ Sprintf_064s h) ''0x'' = Sprintf_064s h"
    using assms(3) hexdigits_pad[OF assms(4)] by (auto simp: TrimPrefix_digits TrimPrefix_0x)
  show ?thesis
    by (simp add: UnmarshalJSON_def assms(1,2) t t' Sprintf_064s_idem del: append.simps)
qed

lemma UnmarshalJSON_length: "UnmarshalJSON json d = Inr b \<Longrightarrow> length b = 32"
  by (auto simp: UnmarshalJSON_def Let_def split: sum.splits if_splits)

lemma UnmarshalJSON_rejects:
  assumes "json d = Inr s"
    and "ParseHexOrString (''0x'' @ Sprintf_064s (TrimPrefix s ''0x'')) = Inr bytes"
    and "length bytes \<noteq> 32"
  shows "UnmarshalJSON json d = Inl (InvalidLength (length bytes))"
  using assms by (simp add: UnmarshalJSON_def del: append.simps)

lemma UnmarshalJSON_0x1: "UnmarshalJSON Inr ''0x1'' = Inr (replicate 31 0 @ [1])"
  by code_simp

lemma UnmarshalJSON_0x1_padded:
  "UnmarshalJSON Inr (''0x'' @ replicate 63 (CHR ''0'') @ ''1'') = Inr (replicate 31 0 @ [1])"
  by code_simp

text \<open>
  Claim C8. Decoding \<open>"0x1"\<close> gives the same 32 bytes as decoding \<open>"0x"\<close> followed by 63
  zeros and \<open>1\<close>, namely 31 zero bytes and the byte 1. More generally, for a string \<open>h\<close>
  of at most 64 hex digits, with or without the \<open>0x\<close> prefix, decoding \<open>h\<close> equals
  decoding \<open>h\<close> padded on the left with zeros to 64 digits, and both are accepted
  with a value of 32 bytes. Every accepted value has exactly 32 bytes, and a string
  whose hex decoding has another length is rejected with the length error. Here \<open>json\<close>
  is the decoding of the JSON text into a string.
\<close>

theorem CustomBytes32_hex_pad:
  "(json d1 = Inr ''0x1'' \<and> json d2 = Inr (''0x'' @ replicate 63 (CHR ''0'') @ ''1'') \<longrightarrow>
      UnmarshalJSON json d1 = UnmarshalJSON json d2 \<and>
      UnmarshalJSON json d1 = Inr (replicate 31 0 @ [1])) \<and>
   (hexdigits h \<and> length h \<le> 64 \<and> (pre = [] \<or> pre = ''0x'') \<and>
    json d = Inr (pre @ h) \<and>
    json d' = Inr (pre @ replicate (64 - length h) (CHR ''0'') @ h) \<longrightarrow>
      UnmarshalJSON json d = UnmarshalJSON json d' \<and>
      (\<exists>b. UnmarshalJSON json d = Inr b \<and> length b = 32)) \<and>
   (\<forall>b. UnmarshalJSON json x = Inr b \<longrightarrow> length b = 32) \<and>
   (json x = Inr s \<and>
    ParseHexOrString (''0x'' @ Sprintf_064s (TrimPrefix s ''0x'')) = Inr bytes \<and>
    length bytes \<noteq> 32 \<longrightarrow>
      UnmarshalJSON json x = Inl (InvalidLength (length bytes)))"
proof (intro conjI impI allI)
  assume a: "json d1 = Inr ''0x1'' \<and> json d2 = Inr (''0x'' @ replicate 63 (CHR ''0'') @ ''1'')"
  then have 1: "UnmarshalJSON json d1 = Inr (replicate 31 0 @ [1])"
    using UnmarshalJSON_string[of json d1 "''0x1''"] by (simp only: UnmarshalJSON_0x1)
  from a have 2: "UnmarshalJSON json d2 = Inr (replicate 31 0 @ [1])"
    using UnmarshalJSON_string[of json d2 "''0x'' @ replicate 63 (CHR ''0'') @ ''1''"]
    by (simp only: UnmarshalJSON_0x1_padded)
  show "UnmarshalJSON json d1 = UnmarshalJSON json d2" by (simp only: 1 2)
  show "UnmarshalJSON json d1 = Inr (replicate 31 0 @ [1])" by (rule 1)
next
  assume a: "hexdigits h \<and> length h \<le> 64 \<and> (pre = [] \<or> pre = ''0x'') \<and>
    json d = Inr (pre @ h) \<and>
    json d' = Inr (pre @ replicate (64 - length h) (CHR ''0'') @ h)"
  then have d': "json d' = Inr (pre @ Sprintf_064s h)"
    by (simp add: Sprintf_064s_def)
  from a d' show "UnmarshalJSON json d = UnmarshalJSON json d'"
    using UnmarshalJSON_padded[of json d pre h d'] by blast
  from a show "\<exists>b. UnmarshalJSON json d = Inr b \<and> length b = 32"
    using UnmarshalJSON_accepts[of json d pre h] by blast
next
  fix b assume "UnmarshalJSON json x = Inr b"
  then show "length b = 32" by (rule UnmarshalJSON_length)
next
  assume "json x = Inr s \<and>
    ParseHexOrString (''0x'' @ Sprintf_064s (TrimPrefix s ''0x'')) = Inr bytes \<and>
    length bytes \<noteq> 32"
  then show "UnmarshalJSON json x = Inl (InvalidLength (length bytes))"
    using UnmarshalJSON_rejects[of json x s bytes] by blast
qed

lemma ParseHexOrString_66_ones:
  "ParseHexOrString (''0x'' @ Sprintf_064s (TrimPrefix (''0x'' @ replicate 66 (CHR ''1'')) ''0x'')) =
     Inr (replicate 33 17)"
  by code_simp

theorem CustomBytes32_hex_pad_witness:
  "UnmarshalJSON Inr ''0x1'' = UnmarshalJSON Inr (''0x'' @ replicate 63 (CHR ''0'') @ ''1'') \<and>
   UnmarshalJSON Inr ''0x1'' = Inr (replicate 31 0 @ [1]) \<and>
   UnmarshalJSON Inr (''0x'' @ ''Ab'') =
     UnmarshalJSON Inr (''0x'' @ replicate (64 - length ''Ab'') (CHR ''0'') @ ''Ab'') \<and>
   (\<exists>b. UnmarshalJSON Inr (''0x'' @ ''Ab'') = Inr b \<and> length b = 32) \<and>
   UnmarshalJSON Inr (''0x'' @ replicate 66 (CHR ''1'')) = Inl (InvalidLength (length (replicate 33 (17::byte))))"
proof -
  have h: "hexdigits ''Ab''" by (simp add: hexdigits_def fromHexChar_def)
  note t = CustomBytes32_hex_pad [of Inr "''0x1''" "''0x'' @ replicate 63 (CHR ''0'') @ ''1''"
      "''Ab''" "''0x''" "''0x'' @ ''Ab''"
      "''0x'' @ replicate (64 - length ''Ab'') (CHR ''0'') @ ''Ab''"
      "''0x'' @ replicate 66 (CHR ''1'')" "''0x'' @ replicate 66 (CHR ''1'')" "replicate 33 17"]
  have 1: "UnmarshalJSON Inr ''0x1'' = UnmarshalJSON Inr (''0x'' @ replicate 63 (CHR ''0'') @ ''1'') \<and>
     UnmarshalJSON Inr ''0x1'' = Inr (replicate 31 0 @ [1])"
    using t by blast
  have "hexdigits ''Ab'' \<and> length ''Ab'' \<le> 64 \<and> (''0x'' = [] \<or> ''0x'' = ''0x'') \<and>
     (Inr (''0x'' @ ''Ab'') :: error + string) = Inr (''0x'' @ ''Ab'') \<and>
     (Inr (''0x'' @ replicate (64 - length ''Ab'') (CHR ''0'') @ ''Ab'') :: error + string) =
       Inr (''0x'' @ replicate (64 - length ''Ab'') (CHR ''0'') @ ''Ab'')"
    using h by simp
  with t have 2: "UnmarshalJSON Inr (''0x'' @ ''Ab'') =
       UnmarshalJSON Inr (''0x'' @ replicate (64 - length ''Ab'') (CHR ''0'') @ ''Ab'') \<and>
     (\<exists>b. UnmarshalJSON Inr (''0x'' @ ''Ab'') = Inr b \<and> length b = 32)"
    by blast
  have "(Inr (''0x'' @ replicate 66 (CHR ''1'')) :: error + string) = Inr (''0x'' @ replicate 66 (CHR ''1'')) \<and>
     ParseHexOrString (''0x'' @ Sprintf_064s (TrimPrefix (''0x'' @ replicate 66 (CHR ''1'')) ''0x'')) =
       Inr (replicate 33 17) \<and> length (replicate 33 (17::byte)) \<noteq> 32"
    using ParseHexOrString_66_ones by simp
  with t have 3: "UnmarshalJSON Inr (''0x'' @ replicate 66 (CHR ''1'')) =
      Inl (InvalidLength (length (replicate 33 (17::byte))))"
    by blast
  from 1 2 3 show ?thesis by blast
qed

section \<open>Theorems: the L1 search boundaries\<close>

lemma GetL1SearchBoundaries_answered:
  assumes "OutputAtBlock startBlock = Inr o_start"
    and "BlockByNumber (sint o_start) = Inr t1"
    and "BlockByNumber (sint (o_start - 1)) = Inr t0"
    and "OutputAtBlock endBlock = Inr o_end"
  shows "GetL1SearchBoundaries OutputAtBlock BlockByNumber startBlock endBlock =
           (if t1 - t0 = 0 then Inl (Panic ''runtime error: integer divide by zero'')
            else Inr (o_start, o_end + (60 div (t1 - t0)) * 10))"
  using assms by (simp add: GetL1SearchBoundaries_def Let_def)

lemma unat_extension: "unat ((60 div t) * 10 :: u64) = (60 div unat t) * 10"
proof -
  have d: "unat (60 div t :: u64) = 60 div unat t"
    by (simp add: unat_div)
  have "60 div unat t \<le> 60" by (rule div_le_dividend)
  then have "(60 div unat t) * 10 \<le> 600" by simp
  also have "(600::nat) < 2 ^ 64" by simp
  finally have "unat (60 div t :: u64) * unat (10 :: u64) < 2 ^ LENGTH(64)"
    by (simp add: d)
  then have "unat ((60 div t) * 10 :: u64) = unat (60 div t :: u64) * unat (10 :: u64)"
    by (rule unat_mult_lem[THEN iffD1])
  then show ?thesis by (simp add: d)
qed

lemma extension_seconds:
  "(60 div t) * 10 * t \<le> (600::nat)" "\<not> t dvd 60 \<Longrightarrow> (60 div t) * 10 * t < 600"
proof -
  have le: "60 div t * t \<le> 60" by simp
  then show "(60 div t) * 10 * t \<le> 600" by simp
  assume "\<not> t dvd 60"
  then have "60 div t * t \<noteq> 60" by (metis dvd_triv_right)
  with le have "60 div t * t < 60" by (rule le_neq_trans)
  then show "(60 div t) * 10 * t < 600" by (simp add: mult.commute)
qed

text \<open>
  Claim C6. The code does not do what the claim asks for. When the four RPC calls answer
  and the L1 block time \<open>t\<close>, the difference of the timestamps of the blocks at
  \<open>o_start\<close> and \<open>o_start - 1\<close>, is not zero, \<open>GetL1SearchBoundaries\<close> returns \<open>o_start\<close>
  and the end L1 origin plus \<open>floor(60 / t) * 10\<close> blocks (the sum in 64-bit arithmetic),
  not plus \<open>floor(600 / t)\<close> blocks. For \<open>t = 12\<close> the extension is 50 blocks. For a block
  time above 60 seconds there is no extension at all, and whenever \<open>t\<close> does not divide
  60 the extension spans less than the 600 seconds that the comments of the function
  promise: \<open>floor(60 / t) * 10\<close> blocks of \<open>t\<close> seconds each.
\<close>

theorem L1_search_extension:
  "OutputAtBlock startBlock = Inr o_start \<and>
   BlockByNumber (sint o_start) = Inr t1 \<and>
   BlockByNumber (sint (o_start - 1)) = Inr t0 \<and>
   OutputAtBlock endBlock = Inr o_end \<and> t1 - t0 \<noteq> 0 \<longrightarrow>
     GetL1SearchBoundaries OutputAtBlock BlockByNumber startBlock endBlock =
       Inr (o_start, o_end + (60 div (t1 - t0)) * 10) \<and>
     unat ((60 div (t1 - t0)) * 10) = (60 div unat (t1 - t0)) * 10 \<and>
     (t1 - t0 = 12 \<longrightarrow>
        GetL1SearchBoundaries OutputAtBlock BlockByNumber startBlock endBlock =
          Inr (o_start, o_end + 50)) \<and>
     (60 < unat (t1 - t0) \<longrightarrow>
        GetL1SearchBoundaries OutputAtBlock BlockByNumber startBlock endBlock =
          Inr (o_start, o_end)) \<and>
     (\<not> unat (t1 - t0) dvd 60 \<longrightarrow>
        unat ((60 div (t1 - t0)) * 10) * unat (t1 - t0) < 600)"
proof (intro impI, elim conjE)
  assume a: "OutputAtBlock startBlock = Inr o_start" "BlockByNumber (sint o_start) = Inr t1"
    "BlockByNumber (sint (o_start - 1)) = Inr t0" "OutputAtBlock endBlock = Inr o_end"
    and t: "t1 - t0 \<noteq> 0"
  let ?G = "GetL1SearchBoundaries OutputAtBlock BlockByNumber startBlock endBlock"
  have 1: "?G = Inr (o_start, o_end + (60 div (t1 - t0)) * 10)"
    using t by (simp add: GetL1SearchBoundaries_answered[OF a])
  have 2: "unat ((60 div (t1 - t0)) * 10) = (60 div unat (t1 - t0)) * 10"
    by (rule unat_extension)
  have 3: "?G = Inr (o_start, o_end + 50)" if "t1 - t0 = 12"
    using 1 that by simp
  have 4: "?G = Inr (o_start, o_end)" if "60 < unat (t1 - t0)"
  proof -
    from that have "unat ((60 div (t1 - t0)) * 10) = 0" by (simp add: 2)
    then have "(60 div (t1 - t0)) * 10 = 0" by (simp only: unat_eq_0)
    with 1 show ?thesis by simp
  qed
  have 5: "unat ((60 div (t1 - t0)) * 10) * unat (t1 - t0) < 600"
    if "\<not> unat (t1 - t0) dvd 60"
    using extension_seconds(2)[OF that] by (simp only: 2)
  from 1 2 3 4 5
  show "?G = Inr (o_start, o_end + (60 div (t1 - t0)) * 10) \<and>
     unat ((60 div (t1 - t0)) * 10) = (60 div unat (t1 - t0)) * 10 \<and>
     (t1 - t0 = 12 \<longrightarrow> ?G = Inr (o_start, o_end + 50)) \<and>
     (60 < unat (t1 - t0) \<longrightarrow> ?G = Inr (o_start, o_end)) \<and>
     (\<not> unat (t1 - t0) dvd 60 \<longrightarrow>
        unat ((60 div (t1 - t0)) * 10) * unat (t1 - t0) < 600)"
    by blast
qed

text \<open>
  Block times of 12, 7, 24 and 61 seconds, for L2 blocks 100 to 200 whose L1 origins are
  the blocks 100 to 200: the upper bound is 250 for 12 seconds; 280 for 7 seconds, where
  the claim has \<open>200 + floor(600 / 7) = 285\<close> and the 80 blocks span 560 seconds; 220 for
  24 seconds, where the claim has 225 and the 20 blocks span 480 seconds; and 200, no
  extension, for 61 seconds, where the claim has 209.
\<close>

theorem L1_search_extension_witness:
  "GetL1SearchBoundaries rollup_same_origin l1_chain_12s 100 200 = Inr (100, 250) \<and>
   GetL1SearchBoundaries rollup_same_origin l1_chain_7s 100 200 = Inr (100, 280) \<and>
   GetL1SearchBoundaries rollup_same_origin l1_chain_7s 100 200 \<noteq> Inr (100, 200 + 600 div 7) \<and>
   unat ((60 div 7) * 10 :: u64) * 7 = 560 \<and>
   GetL1SearchBoundaries rollup_same_origin l1_chain_24s 100 200 = Inr (100, 220) \<and>
   GetL1SearchBoundaries rollup_same_origin l1_chain_24s 100 200 \<noteq> Inr (100, 200 + 600 div 24) \<and>
   unat ((60 div 24) * 10 :: u64) * 24 = 480 \<and>
   GetL1SearchBoundaries rollup_same_origin l1_chain_61s 100 200 = Inr (100, 200) \<and>
   GetL1SearchBoundaries rollup_same_origin l1_chain_61s 100 200 \<noteq> Inr (100, 200 + 600 div 61)"
  using L1_search_extension [of rollup_same_origin 100 100 l1_chain_12s 1200 1188 200 200]
    L1_search_extension [of rollup_same_origin 100 100 l1_chain_7s 700 693 200 200]
    L1_search_extension [of rollup_same_origin 100 100 l1_chain_24s 2400 2376 200 200]
    L1_search_extension [of rollup_same_origin 100 100 l1_chain_61s 6100 6039 200 200]
  by (simp add: rollup_same_origin_def l1_chain_12s_def l1_chain_7s_def l1_chain_24s_def
        l1_chain_61s_def)

text \<open>
  Claim C10. The division by the L1 block time has no guard: when the RPC calls answer
  and the blocks at \<open>o_start\<close> and \<open>o_start - 1\<close> carry the same timestamp,
  \<open>GetL1SearchBoundaries\<close> panics with a division by zero; it returns neither an error
  nor a result.
\<close>

theorem L1_block_time_zero_panics:
  "OutputAtBlock startBlock = Inr o_start \<and>
   BlockByNumber (sint o_start) = Inr t \<and>
   BlockByNumber (sint (o_start - 1)) = Inr t \<and>
   OutputAtBlock endBlock = Inr o_end \<longrightarrow>
     GetL1SearchBoundaries OutputAtBlock BlockByNumber startBlock endBlock =
       Inl (Panic ''runtime error: integer divide by zero'')"
  by (simp add: GetL1SearchBoundaries_answered)

theorem L1_block_time_zero_panics_witness:
  "GetL1SearchBoundaries rollup_same_origin l1_chain_stalled 100 200 =
     Inl (Panic ''runtime error: integer divide by zero'')"
  using L1_block_time_zero_panics [of rollup_same_origin 100 100 l1_chain_stalled 1700000000 200 200]
  by (simp add: rollup_same_origin_def l1_chain_stalled_def)

section \<open>Theorems: span batch ranges\<close>

lemma batches_loop_span_step:
  assumes "BlockTime cfg \<noteq> 0" "0 < n"
  shows "batches_loop cfg s e (SpanBatch ts n # bs) rs =
           batches_loop cfg s e bs
             (rs @ (case clipped cfg s e (SpanBatch ts n) of None \<Rightarrow> [] | Some r \<Rightarrow> [r]))"
  using assms
  by (simp add: GetTimestamp_def TimestampToBlock_def AsSpanBatch_def clipped_def t2b_def Let_def)

lemma map_filter_append:
  "List.map_filter f (xs @ ys) = List.map_filter f xs @ List.map_filter f ys"
  by (simp add: List.map_filter_def)

lemma batches_loop_spans:
  assumes "BlockTime cfg \<noteq> 0"
  shows "list_all is_span bs \<Longrightarrow>
         batches_loop cfg s e (bs @ rest) rs =
           batches_loop cfg s e rest (rs @ List.map_filter (clipped cfg s e) bs)"
proof (induction bs arbitrary: rs)
  case Nil
  then show ?case by simp
next
  case (Cons b bs)
  from Cons.prems have bs: "list_all is_span bs" and "is_span b" by simp_all
  then obtain ts n where b: "b = SpanBatch ts n" and n: "0 < n"
    by (cases b) (simp_all add: is_span_def)
  let ?r = "case clipped cfg s e (SpanBatch ts n) of None \<Rightarrow> [] | Some r \<Rightarrow> [r]"
  have "batches_loop cfg s e ((b # bs) @ rest) rs = batches_loop cfg s e (bs @ rest) (rs @ ?r)"
    by (simp only: b append_Cons batches_loop_span_step[OF assms n])
  also have "\<dots> = batches_loop cfg s e rest ((rs @ ?r) @ List.map_filter (clipped cfg s e) bs)"
    by (rule Cons.IH[OF bs])
  also have "(rs @ ?r) @ List.map_filter (clipped cfg s e) bs =
             rs @ List.map_filter (clipped cfg s e) (b # bs)"
    by (simp add: b split: option.splits)
  finally show ?case .
qed

lemma batches_loop_singular:
  assumes "BlockTime cfg \<noteq> 0"
  shows "batches_loop cfg s e (SingularBatch ts # post) rs =
           Inr (Return (rs @ [\<lparr>Start = s, End = e\<rparr>]))"
  using assms by (simp add: GetTimestamp_def TimestampToBlock_def AsSpanBatch_def)

lemma channels_loop_spans:
  assumes "BlockTime cfg \<noteq> 0"
  shows "list_all span_channel chs \<Longrightarrow>
         channels_loop cfg s e (chs @ rest) rs =
           channels_loop cfg s e rest (rs @ List.map_filter (clipped cfg s e) (concat chs))"
proof (induction chs arbitrary: rs)
  case Nil
  then show ?case by simp
next
  case (Cons ch chs)
  then have chs: "list_all span_channel chs" and "span_channel ch" by simp_all
  then have ch: "ch \<noteq> []" "list_all is_span ch"
    by (simp_all add: span_channel_def)
  have "batches_loop cfg s e ch rs = Inr (Go_on (rs @ List.map_filter (clipped cfg s e) ch))"
    using batches_loop_spans[OF assms ch(2), of s e "[]" rs] by simp
  then show ?case
    using Cons.IH[OF chs] ch(1) by (simp add: map_filter_append)
qed

lemma batches_loop_nil:
  "batches_loop cfg s e (NilBatch # post) rs =
     Inl (Panic ''runtime error: invalid memory address or nil pointer dereference'')"
  by (simp add: GetTimestamp_def)

text \<open>
  Claim C5. The code does not do what the claim asks for, nor what its own comment says
  (return the entire range). Let the block time be non-zero and let the first batch that
  is not a span batch come after channels and batches that are span batches. If that
  batch is a singular batch, \<open>GetSpanBatchRanges\<close> stops there and returns the ranges
  derived from the earlier batches and channels followed by \<open>[l2_start, l2_end]\<close> as the
  last element, whatever the later batches and channels hold; the result is the
  one-element list only when the earlier batches contributed no range, as when nothing
  came before that batch. If that batch is one that could not be derived at all (the nil
  batch that \<open>processFrames\<close> appends), the function panics when it asks the batch for its
  timestamp, before the fallback is reached.
\<close>

theorem unparsable_batch_fallback:
  "BlockTime cfg \<noteq> 0 \<and> list_all span_channel earlier_channels \<and>
   list_all is_span earlier_batches \<longrightarrow>
     GetSpanBatchRanges
        (earlier_channels @ (earlier_batches @ SingularBatch ts # later_batches) # later_channels)
        cfg startBlock endBlock =
       Inr (List.map_filter (clipped cfg startBlock endBlock)
              (concat earlier_channels @ earlier_batches)
            @ [\<lparr>Start = startBlock, End = endBlock\<rparr>]) \<and>
     (earlier_channels = [] \<and> earlier_batches = [] \<longrightarrow>
        GetSpanBatchRanges ((SingularBatch ts # later_batches) # later_channels)
          cfg startBlock endBlock =
          Inr [\<lparr>Start = startBlock, End = endBlock\<rparr>]) \<and>
     GetSpanBatchRanges
        (earlier_channels @ (earlier_batches @ NilBatch # later_batches) # later_channels)
        cfg startBlock endBlock =
       Inl (Panic ''runtime error: invalid memory address or nil pointer dereference'')"
proof (intro impI, elim conjE)
  assume bt: "BlockTime cfg \<noteq> 0" and chs: "list_all span_channel earlier_channels"
    and bs: "list_all is_span earlier_batches"
  let ?ch = "earlier_batches @ SingularBatch ts # later_batches"
  let ?nil = "earlier_batches @ NilBatch # later_batches"
  let ?derived = "List.map_filter (clipped cfg startBlock endBlock)"
  let ?panic = "Inl (Panic ''runtime error: invalid memory address or nil pointer dereference'')"
  have 1: "batches_loop cfg startBlock endBlock ?ch rs =
           Inr (Return (rs @ ?derived earlier_batches @ [\<lparr>Start = startBlock, End = endBlock\<rparr>]))"
    for rs
  proof -
    have "batches_loop cfg startBlock endBlock ?ch rs =
          batches_loop cfg startBlock endBlock (SingularBatch ts # later_batches)
            (rs @ ?derived earlier_batches)"
      by (rule batches_loop_spans[OF bt bs])
    also have "\<dots> = Inr (Return ((rs @ ?derived earlier_batches)
                        @ [\<lparr>Start = startBlock, End = endBlock\<rparr>]))"
      by (rule batches_loop_singular[OF bt])
    finally show ?thesis by simp
  qed
  have 2: "GetSpanBatchRanges (earlier_channels @ ?ch # later_channels) cfg startBlock endBlock =
       Inr (?derived (concat earlier_channels @ earlier_batches)
            @ [\<lparr>Start = startBlock, End = endBlock\<rparr>])"
    unfolding GetSpanBatchRanges_def
    by (simp add: channels_loop_spans[OF bt chs] 1 map_filter_append)
  have 3: "batches_loop cfg startBlock endBlock ?nil rs = ?panic" for rs
  proof -
    have "batches_loop cfg startBlock endBlock ?nil rs =
          batches_loop cfg startBlock endBlock (NilBatch # later_batches)
            (rs @ ?derived earlier_batches)"
      by (rule batches_loop_spans[OF bt bs])
    also have "\<dots> = ?panic" by (rule batches_loop_nil)
    finally show ?thesis .
  qed
  have 4: "GetSpanBatchRanges (earlier_channels @ ?nil # later_channels) cfg startBlock endBlock =
       ?panic"
    unfolding GetSpanBatchRanges_def
    by (simp add: channels_loop_spans[OF bt chs] 3)
  show "GetSpanBatchRanges (earlier_channels @ ?ch # later_channels) cfg startBlock endBlock =
       Inr (?derived (concat earlier_channels @ earlier_batches)
            @ [\<lparr>Start = startBlock, End = endBlock\<rparr>]) \<and>
     (earlier_channels = [] \<and> earlier_batches = [] \<longrightarrow>
        GetSpanBatchRanges ((SingularBatch ts # later_batches) # later_channels)
          cfg startBlock endBlock =
          Inr [\<lparr>Start = startBlock, End = endBlock\<rparr>]) \<and>
     GetSpanBatchRanges (earlier_channels @ ?nil # later_channels) cfg startBlock endBlock =
       ?panic"
    using 2 4 by auto
qed

text \<open>
  One L2 block every 2 seconds and the range 100 to 199. A span batch of the blocks 100
  to 109 followed by a singular batch: the result has two elements, the range of the
  span batch and then the whole range, where the claim has the whole range only. The
  same with more channels around, and with a batch that could not be derived in the
  place of the singular batch. With the singular batch first, the result is the whole
  range only.
\<close>

theorem unparsable_batch_fallback_witness:
  "GetSpanBatchRanges [[SpanBatch 200 10, SingularBatch 220]] example_rollupCfg 100 199 =
     Inr [\<lparr>Start = 100, End = 109\<rparr>, \<lparr>Start = 100, End = 199\<rparr>] \<and>
   GetSpanBatchRanges [[SpanBatch 200 10, SingularBatch 220]] example_rollupCfg 100 199 \<noteq>
     Inr [\<lparr>Start = 100, End = 199\<rparr>] \<and>
   GetSpanBatchRanges
      [[SpanBatch 200 10], [SpanBatch 220 500, SingularBatch 1000, SpanBatch 240 1], [SpanBatch 300 2]]
      example_rollupCfg 100 199 =
     Inr [\<lparr>Start = 100, End = 109\<rparr>, \<lparr>Start = 110, End = 199\<rparr>, \<lparr>Start = 100, End = 199\<rparr>] \<and>
   GetSpanBatchRanges [[SpanBatch 200 10, NilBatch]] example_rollupCfg 100 199 =
     Inl (Panic ''runtime error: invalid memory address or nil pointer dereference'') \<and>
   GetSpanBatchRanges [[SingularBatch 220, SpanBatch 200 10]] example_rollupCfg 100 199 =
     Inr [\<lparr>Start = 100, End = 199\<rparr>]"
  using unparsable_batch_fallback [of example_rollupCfg "[]" "[SpanBatch 200 10]"
      220 "[]" "[]" 100 199]
    unparsable_batch_fallback [of example_rollupCfg "[]" "[]" 220 "[SpanBatch 200 10]" "[]" 100 199]
    unparsable_batch_fallback [of example_rollupCfg "[[SpanBatch 200 10]]" "[SpanBatch 220 500]"
      1000 "[SpanBatch 240 1]" "[[SpanBatch 300 2]]" 100 199]
  by (simp add: example_rollupCfg_def span_channel_def is_span_def clipped_def t2b_def)

section \<open>Theorems: the retry policy\<close>

lemma next_id_snoc: "next_id (rows @ [r]) = max (ID r) (next_id rows - 1) + 1"
  by (simp add: next_id_def)

lemma next_id_insert:
  "next_id (rows @ [new_request (next_id rows) t s e added]) = next_id rows + 1"
  by (simp add: next_id_snoc new_request_def)

lemma retry_span_loop_twice:
  "retry_span_loop dbops reqEndBlock 2 tmpStart tmpEnd d =
     (case NewEntryWithReqAddedTimestamp dbops SPAN tmpStart tmpEnd 0 d of
        Inl err \<Rightarrow> (d, Some err)
      | Inr d1 \<Rightarrow>
          (case NewEntryWithReqAddedTimestamp dbops SPAN (tmpEnd + 1) reqEndBlock 0 d1 of
             Inl err \<Rightarrow> (d1, Some err)
           | Inr d2 \<Rightarrow> (d2, None)))"
  by (simp add: numeral_2_eq_2 split: sum.splits)

lemma RetryRequest_ledger_span:
  assumes "dbi l = ledger_db clock" "Type req = SPAN"
  shows "RetryRequest l req rows =
           (let s = StartBlock req; e = EndBlock req; m = s + (e - s) div 2
            in (rows @ [new_request (next_id rows) SPAN s m 0,
                        new_request (next_id rows + 1) SPAN (m + 1) e 0], None))"
  using assms
  by (simp add: RetryRequest_def retry_span_loop_twice ledger_db_def ledger_insert_def
        next_id_insert Let_def)

lemma RetryRequest_ledger_agg:
  assumes "dbi l = ledger_db clock" "Type req = AGG"
  shows "RetryRequest l req rows =
           (rows @ [new_request (next_id rows) AGG (StartBlock req) (EndBlock req) 0], None)"
  using assms by (simp add: RetryRequest_def ledger_db_def ledger_insert_def)

lemma bisect_unat:
  fixes s e :: u64
  assumes "s < e"
  defines "m \<equiv> s + (e - s) div 2"
  shows "unat m = unat s + (unat e - unat s) div 2"
    and "unat (m + 1) = unat m + 1"
    and "unat s \<le> unat m" and "unat m < unat e"
proof -
  from assms(1) have le: "unat s < unat e" by (simp add: word_less_nat_alt)
  have sub: "unat (e - s) = unat e - unat s"
    using assms(1) by (simp add: unat_sub word_le_less_eq)
  have half: "unat ((e - s) div 2) = (unat e - unat s) div 2"
    by (simp add: unat_div sub)
  have bound: "unat e < 2 ^ LENGTH(64)" by (rule unsigned_less)
  have "unat s + unat ((e - s) div 2) < 2 ^ LENGTH(64)"
    using le bound by (simp add: half)
  then have "unat (s + (e - s) div 2) = unat s + unat ((e - s) div 2)"
    by (rule unat_add_lem[THEN iffD1])
  then show m: "unat m = unat s + (unat e - unat s) div 2"
    by (simp add: m_def half)
  from m le show lt: "unat m < unat e" by arith
  from m show "unat s \<le> unat m" by simp
  from lt bound have "unat m + unat (1 :: u64) < 2 ^ LENGTH(64)" by simp
  then have "unat (m + 1) = unat m + unat (1 :: u64)"
    by (rule unat_add_lem[THEN iffD1])
  then show "unat (m + 1) = unat m + 1" by simp
qed

lemma RetryRequest_span_two_inserts:
  assumes "Type req = SPAN"
    and "NewEntryWithReqAddedTimestamp (dbi l) SPAN (StartBlock req)
           (StartBlock req + (EndBlock req - StartBlock req) div 2) 0 d = Inr d1"
    and "NewEntryWithReqAddedTimestamp (dbi l) SPAN
           (StartBlock req + (EndBlock req - StartBlock req) div 2 + 1) (EndBlock req) 0 d1 = Inr d2"
  shows "RetryRequest l req d = (d2, None)"
  using assms by (simp add: RetryRequest_def retry_span_loop_twice Let_def)

text \<open>
  Claim C1. For a \<open>SPAN\<close> request with range \<open>[s, e]\<close>, \<open>s < e\<close>, let
  \<open>m = s + (e - s) / 2\<close> (integer division). Over any database whose inserts succeed,
  the retry policy performs exactly the two inserts of \<open>SPAN [s, m]\<close> and
  \<open>SPAN [m + 1, e]\<close>, one after the other, and returns no error. Over the ledger it
  appends exactly two fresh \<open>SPAN\<close> records in state \<open>UNREQ\<close> with these ranges. The
  arithmetic does not wrap around, both halves are non-empty, and they partition
  \<open>[s, e]\<close>: no gap, no overlap.
\<close>

theorem retry_splits_span:
  "Type req = SPAN \<and> StartBlock req = s \<and> EndBlock req = e \<and> s < e \<longrightarrow>
     (let m = s + (e - s) div 2 in
        (NewEntryWithReqAddedTimestamp (dbi l) SPAN s m 0 d = Inr d1 \<and>
         NewEntryWithReqAddedTimestamp (dbi l) SPAN (m + 1) e 0 d1 = Inr d2 \<longrightarrow>
           RetryRequest l req d = (d2, None)) \<and>
        (dbi l' = ledger_db clock \<longrightarrow>
           RetryRequest l' req rows =
             (rows @ [\<lparr>ID = next_id rows, Type = SPAN, StartBlock = s, EndBlock = m,
                        Status = UNREQ, RequestAddedTime = 0, ProverRequestID = '''',
                        ProofRequestTime = 0, L1BlockNumber = 0, L1BlockHash = '''', Proof = []\<rparr>,
                      \<lparr>ID = next_id rows + 1, Type = SPAN, StartBlock = m + 1, EndBlock = e,
                        Status = UNREQ, RequestAddedTime = 0, ProverRequestID = '''',
                        ProofRequestTime = 0, L1BlockNumber = 0, L1BlockHash = '''', Proof = []\<rparr>],
              None)) \<and>
        unat m = unat s + (unat e - unat s) div 2 \<and>
        unat (m + 1) = unat m + 1 \<and>
        unat s \<le> unat m \<and> unat (m + 1) \<le> unat e \<and>
        {unat s..unat m} \<union> {unat (m + 1)..unat e} = {unat s..unat e} \<and>
        {unat s..unat m} \<inter> {unat (m + 1)..unat e} = {})"
proof (intro impI, elim conjE)
  assume ty: "Type req = SPAN"
    and s: "StartBlock req = s" and e: "EndBlock req = e" and lt: "s < e"
  define m where "m = s + (e - s) div 2"
  note b = bisect_unat[OF lt, folded m_def]
  have g: "RetryRequest l req d = (d2, None)"
    if "NewEntryWithReqAddedTimestamp (dbi l) SPAN s m 0 d = Inr d1"
      "NewEntryWithReqAddedTimestamp (dbi l) SPAN (m + 1) e 0 d1 = Inr d2"
    using RetryRequest_span_two_inserts[OF ty, of l d d1 d2] that by (simp add: s e m_def)
  have r: "RetryRequest l' req rows =
          (rows @ [new_request (next_id rows) SPAN s m 0,
                   new_request (next_id rows + 1) SPAN (m + 1) e 0], None)"
    if "dbi l' = ledger_db clock"
    using RetryRequest_ledger_span[OF that ty, of rows] by (simp add: s e m_def Let_def)
  have u: "{unat s..unat m} \<union> {unat (m + 1)..unat e} = {unat s..unat e}"
    using b by auto
  have i: "{unat s..unat m} \<inter> {unat (m + 1)..unat e} = {}"
    using b by auto
  from b have le: "unat (m + 1) \<le> unat e" by simp
  show "let m = s + (e - s) div 2 in
        (NewEntryWithReqAddedTimestamp (dbi l) SPAN s m 0 d = Inr d1 \<and>
         NewEntryWithReqAddedTimestamp (dbi l) SPAN (m + 1) e 0 d1 = Inr d2 \<longrightarrow>
           RetryRequest l req d = (d2, None)) \<and>
        (dbi l' = ledger_db clock \<longrightarrow>
           RetryRequest l' req rows =
             (rows @ [\<lparr>ID = next_id rows, Type = SPAN, StartBlock = s, EndBlock = m,
                        Status = UNREQ, RequestAddedTime = 0, ProverRequestID = '''',
                        ProofRequestTime = 0, L1BlockNumber = 0, L1BlockHash = '''', Proof = []\<rparr>,
                      \<lparr>ID = next_id rows + 1, Type = SPAN, StartBlock = m + 1, EndBlock = e,
                        Status = UNREQ, RequestAddedTime = 0, ProverRequestID = '''',
                        ProofRequestTime = 0, L1BlockNumber = 0, L1BlockHash = '''', Proof = []\<rparr>],
              None)) \<and>
        unat m = unat s + (unat e - unat s) div 2 \<and>
        unat (m + 1) = unat m + 1 \<and>
        unat s \<le> unat m \<and> unat (m + 1) \<le> unat e \<and>
        {unat s..unat m} \<union> {unat (m + 1)..unat e} = {unat s..unat e} \<and>
        {unat s..unat m} \<inter> {unat (m + 1)..unat e} = {}"
    unfolding Let_def m_def[symmetric]
    using g r u i le b(1,2,3) by (simp add: new_request_def)
qed

theorem retry_splits_span_witness:
  "RetryRequest example_submitter (new_request 1 SPAN 100 199 0) [new_request 1 SPAN 100 199 0] =
     ([new_request 1 SPAN 100 199 0, new_request 2 SPAN 100 149 0, new_request 3 SPAN 150 199 0],
      None)"
  using retry_splits_span [of "new_request 1 SPAN 100 199 0" 100 199 example_submitter
      "[new_request 1 SPAN 100 199 0]" "[new_request 1 SPAN 100 199 0, new_request 2 SPAN 100 149 0]"
      "[new_request 1 SPAN 100 199 0, new_request 2 SPAN 100 149 0, new_request 3 SPAN 150 199 0]"
      example_submitter 5000 "[new_request 1 SPAN 100 199 0]"]
  by (simp add: example_submitter_def new_request_def next_id_def Let_def)

text \<open>
  Claim C2. The code does not do what the claim asks for: for a \<open>SPAN\<close> request
  whose range is the single block \<open>s\<close>, the retry policy over the ledger raises no
  error and appends two successors, \<open>[s, s]\<close> and the inverted range \<open>[s + 1, s]\<close>.
\<close>

theorem retry_single_block_span:
  "dbi l = ledger_db clock \<and> Type req = SPAN \<and> StartBlock req = s \<and> EndBlock req = s \<longrightarrow>
     RetryRequest l req rows =
       (rows @ [new_request (next_id rows) SPAN s s 0,
                new_request (next_id rows + 1) SPAN (s + 1) s 0], None)"
proof (intro impI, elim conjE)
  assume l: "dbi l = ledger_db clock" and ty: "Type req = SPAN"
    and s: "StartBlock req = s" and e: "EndBlock req = s"
  show "RetryRequest l req rows =
       (rows @ [new_request (next_id rows) SPAN s s 0,
                new_request (next_id rows + 1) SPAN (s + 1) s 0], None)"
    using RetryRequest_ledger_span[OF l ty, of rows] by (simp add: s e Let_def)
qed

theorem retry_single_block_span_witness:
  "RetryRequest example_submitter (new_request 1 SPAN 100 100 0) [new_request 1 SPAN 100 100 0] =
     ([new_request 1 SPAN 100 100 0, new_request 2 SPAN 100 100 0, new_request 3 SPAN 101 100 0],
      None)"
  using retry_single_block_span [of example_submitter 5000 "new_request 1 SPAN 100 100 0" 100
      "[new_request 1 SPAN 100 100 0]"]
  by (simp add: example_submitter_def new_request_def next_id_def)

section \<open>Theorems: the prover gateway\<close>

lemma posted_RequestProofFromServer:
  "http_NewRequest l urlPath = None \<Longrightarrow>
     posted (fst (RequestProofFromServer l urlPath body w)) = posted w @ [(urlPath, body)]"
  by (simp add: RequestProofFromServer_def Let_def split: http_result.splits)

lemma posted_RequestOPSuccinctProof_span:
  assumes "Type p = SPAN" "http_NewRequest l ''request_span_proof'' = None"
  shows "posted (fst (RequestOPSuccinctProof l p w)) =
           posted w @ [(''request_span_proof'', SpanProofRequest (StartBlock p - 1) (EndBlock p))]"
proof -
  let ?r = "RequestProofFromServer l ''request_span_proof''
              (SpanProofRequest (StartBlock p - 1) (EndBlock p)) w"
  have "posted (fst (RequestOPSuccinctProof l p w)) = posted (fst ?r)"
    using assms(1)
    by (simp add: RequestOPSuccinctProof_def RequestSpanProof_def Let_def
          split: prod.splits sum.splits)
  then show ?thesis
    by (simp only: posted_RequestProofFromServer[OF assms(2)])
qed

text \<open>
  Claim C9. For a \<open>SPAN\<close> request with range \<open>[s, e]\<close>, \<open>RequestOPSuccinctProof\<close> posts
  exactly one request to the prover server, to \<open>request_span_proof\<close> with the body
  \<open>{start: s - 1, end: e}\<close>, where \<open>s - 1\<close> is computed in unsigned 64-bit arithmetic: it
  is \<open>2^64 - 1\<close> when \<open>s = 0\<close>. (The request is posted whenever it can be built from the
  configured URL.)
\<close>

theorem span_proof_request_body:
  "Type p = SPAN \<and> StartBlock p = s \<and> EndBlock p = e \<and>
   http_NewRequest l ''request_span_proof'' = None \<longrightarrow>
     posted (fst (RequestOPSuccinctProof l p w)) =
       posted w @ [(''request_span_proof'', SpanProofRequest (s - 1) e)] \<and>
     unat (s - 1) = (if s = 0 then 2 ^ 64 - 1 else unat s - 1)"
proof (intro impI, elim conjE)
  assume ty: "Type p = SPAN" and s: "StartBlock p = s" and e: "EndBlock p = e"
    and ok: "http_NewRequest l ''request_span_proof'' = None"
  have 1: "posted (fst (RequestOPSuccinctProof l p w)) =
       posted w @ [(''request_span_proof'', SpanProofRequest (s - 1) e)]"
    using posted_RequestOPSuccinctProof_span[OF ty ok, of w] by (simp add: s e)
  have 2: "unat (s - 1) = (if s = 0 then 2 ^ 64 - 1 else unat s - 1)"
  proof (cases "s = 0")
    case True
    then show ?thesis by (simp add: unsigned_minus_1_eq_mask mask_eq_exp_minus_1)
  next
    case False
    then have "1 \<le> s" by (simp add: word_le_nat_alt unat_gt_0 Suc_le_eq)
    then have "unat (s - 1) = unat s - unat (1 :: u64)" by (rule unat_sub)
    with False show ?thesis by simp
  qed
  from 1 2 show "posted (fst (RequestOPSuccinctProof l p w)) =
       posted w @ [(''request_span_proof'', SpanProofRequest (s - 1) e)] \<and>
     unat (s - 1) = (if s = 0 then 2 ^ 64 - 1 else unat s - 1)" by blast
qed

theorem span_proof_request_body_witness:
  "posted (fst (RequestOPSuccinctProof example_submitter (new_request 1 SPAN 100 199 0)
             (world_of [new_request 1 SPAN 100 199 0]))) =
     [(''request_span_proof'', SpanProofRequest 99 199)] \<and>
   posted (fst (RequestOPSuccinctProof example_submitter (new_request 1 SPAN 0 9 0)
             (world_of [new_request 1 SPAN 0 9 0]))) =
     [(''request_span_proof'', SpanProofRequest 18446744073709551615 9)]"
  using span_proof_request_body [of "new_request 1 SPAN 100 199 0" 100 199 example_submitter
      "world_of [new_request 1 SPAN 100 199 0]"]
    span_proof_request_body [of "new_request 1 SPAN 0 9 0" 0 9 example_submitter
      "world_of [new_request 1 SPAN 0 9 0]"]
  by (simp add: example_submitter_def new_request_def world_of_def)

section \<open>Theorems: pass B\<close>

text \<open>
  Claim C7. The code does not do what the claim asks for: when the next unrequested
  record is an \<open>AGG\<close> record without L1 checkpoint, the checkpoint transaction succeeds
  and the database fails to attach the checkpoint to the record, \<open>RequestQueuedProofs\<close>
  returns no error (it leaves everything as it was and starts no task).
\<close>

theorem checkpoint_write_error_swallowed:
  "GetNextUnrequestedProof (dbi l) (db w) = Inr (Some p) \<and> Type p = AGG \<and> L1BlockHash p = '''' \<and>
   checkpointBlockHash l = Inr (blockNumber, blockHash) \<and>
   AddL1BlockInfoToAggRequest (dbi l) (StartBlock p) (EndBlock p) blockNumber blockHash (db w) = Inl err
   \<longrightarrow> RequestQueuedProofs l w = (w, None, None)"
  by (simp add: RequestQueuedProofs_def)

theorem checkpoint_write_error_swallowed_witness:
  "RequestQueuedProofs submitter_failing_checkpoint_write (world_of [new_request 1 AGG 1 1000 0]) =
     (world_of [new_request 1 AGG 1 1000 0], None, None)"
  using checkpoint_write_error_swallowed [of submitter_failing_checkpoint_write
      "world_of [new_request 1 AGG 1 1000 0]" "new_request 1 AGG 1 1000 0" 77 "''0xabc''"
      "Err ''database is locked''"]
  by (simp add: submitter_failing_checkpoint_write_def example_submitter_def ledger_db_def
        world_of_def next_unrequested_def new_request_def)

section \<open>Theorems: pass A\<close>

lemma update_status_FAILED:
  "update_status clock i FAILED rows =
     map (\<lambda>r. if ID r = i then r\<lparr>Status := FAILED\<rparr> else r) rows"
  by (simp add: update_status_def)


subsection \<open>The whole pass over the ledger\<close>






lemma successors_in_append: "successors_in req rows \<Longrightarrow> successors_in req (rows @ more_rows)"
  by (auto simp: successors_in_def Let_def list_ex_iff split: if_splits)















section \<open>Theorems: the concurrency cap of pass B\<close>











section \<open>Further properties\<close>

lemma pending_after_update:
  assumes "other \<in> set (get_all_pending rows)" "ID other \<noteq> i"
  shows "other \<in> set (get_all_pending (map (\<lambda>r. if ID r = i then f r else r) rows))"
proof -
  from assms(1) have "other \<in> set rows" "Status other = REQ" "ProverRequestID other \<noteq> ''''"
    by (simp_all add: get_all_pending_def)
  moreover from this(1) assms(2)
  have "other \<in> set (map (\<lambda>r. if ID r = i then f r else r) rows)"
    by (auto simp: image_iff intro!: bexI[of _ other])
  ultimately show ?thesis by (simp add: get_all_pending_def)
qed

lemma pending_after_append:
  "other \<in> set (get_all_pending rows) \<Longrightarrow> other \<in> set (get_all_pending (rows @ added))"
  by (simp add: get_all_pending_def)

lemma RetryRequest_ledger_appends:
  assumes "dbi l = ledger_db clock"
  shows "\<exists>added. fst (RetryRequest l req rows) = rows @ added"
proof (cases "Type req")
  case SPAN
  then show ?thesis by (simp add: RetryRequest_ledger_span[OF assms] Let_def)
next
  case AGG
  then show ?thesis by (simp add: RetryRequest_ledger_agg[OF assms])
qed

text \<open>
  Over the ledger, processing one pending record in pass A leaves every pending record
  with another id as it is: it is still pending for the iterations that follow.
\<close>

theorem pending_step_keeps_others:
  "dbi l = ledger_db clock \<and> other \<in> set (get_all_pending (db w)) \<and> ID other \<noteq> ID req \<longrightarrow>
     other \<in> set (get_all_pending (db (fst (process_pending l req w))))"
proof (intro impI, elim conjE)
  assume l: "dbi l = ledger_db clock" and o: "other \<in> set (get_all_pending (db w))"
    and ne: "ID other \<noteq> ID req"
  have ops: "AddProof (dbi l) = add_proof"
    "UpdateProofStatus (dbi l) = (\<lambda>i st rows. Inr (update_status clock i st rows))"
    by (simp_all add: l ledger_db_def)
  let ?failed = "map (\<lambda>r. if ID r = ID req then r\<lparr>Status := FAILED\<rparr> else r) (db w)"
  obtain added where added: "fst (RetryRequest l req ?failed) = ?failed @ added"
    using RetryRequest_ledger_appends[OF l] by blast
  have f: "other \<in> set (get_all_pending (fst (RetryRequest l req ?failed)))"
    unfolding added by (rule pending_after_append, rule pending_after_update[OF o ne])
  have c: "other \<in> set (get_all_pending
      (map (\<lambda>r. if ID r = ID req then r\<lparr>Status := COMPLETE, Proof := bytes\<rparr> else r) (db w)))"
    for bytes
    by (rule pending_after_update[OF o ne])
  show "other \<in> set (get_all_pending (db (fst (process_pending l req w))))"
  proof (cases "GetProofStatus l (ProverRequestID req)")
    case (Inl err)
    then show ?thesis using o by (simp add: process_pending_def)
  next
    case (Inr r)
    obtain status bytes where r: "r = (status, bytes)" by (cases r)
    show ?thesis
    proof (cases "status = ''PROOF_FULFILLED''")
      case True
      then show ?thesis
        using o c[of bytes] by (simp add: process_pending_def Inr r ops add_proof_def)
    next
      case False
      obtain d' e' where rr: "RetryRequest l req ?failed = (d', e')"
        by (cases "RetryRequest l req ?failed")
      with f have d': "other \<in> set (get_all_pending d')" by simp
      show ?thesis
        using False o d'
        by (simp add: process_pending_def Inr r ops time_Now_def update_status_FAILED rr Let_def
              split: option.splits)
    qed
  qed
qed

theorem pending_step_keeps_others_witness:
  "(pending_span 4000)\<lparr>ID := 7\<rparr> \<in> set (get_all_pending (db (fst (process_pending
       (submitter_polling ''PROOF_UNCLAIMED'' []) (pending_span 4000)
       (world_of [pending_span 4000, (pending_span 4000)\<lparr>ID := 7\<rparr>])))))"
  using pending_step_keeps_others [of "submitter_polling ''PROOF_UNCLAIMED'' []" 5000
      "(pending_span 4000)\<lparr>ID := 7\<rparr>"
      "world_of [pending_span 4000, (pending_span 4000)\<lparr>ID := 7\<rparr>]" "pending_span 4000"]
  by (simp add: submitter_polling_def example_submitter_def world_of_def pending_span_def
        get_all_pending_def)

text \<open>
  Scenario B of the specification. The retry of an \<open>AGG\<close> request over the ledger
  returns no error and appends exactly one fresh \<open>AGG\<close> record in state \<open>UNREQ\<close> with the
  same range.
\<close>

theorem retry_agg_same_range:
  "dbi l = ledger_db clock \<and> Type req = AGG \<longrightarrow>
     RetryRequest l req rows =
       (rows @ [\<lparr>ID = next_id rows, Type = AGG, StartBlock = StartBlock req,
                  EndBlock = EndBlock req, Status = UNREQ, RequestAddedTime = 0,
                  ProverRequestID = '''', ProofRequestTime = 0, L1BlockNumber = 0,
                  L1BlockHash = '''', Proof = []\<rparr>], None)"
  by (simp add: RetryRequest_ledger_agg new_request_def)

theorem retry_agg_same_range_witness:
  "RetryRequest example_submitter ((new_request 1 AGG 1 1000 0)\<lparr>Status := FAILED\<rparr>)
       [(new_request 1 AGG 1 1000 0)\<lparr>Status := FAILED\<rparr>] =
     ([(new_request 1 AGG 1 1000 0)\<lparr>Status := FAILED\<rparr>, new_request 2 AGG 1 1000 0], None)"
  using retry_agg_same_range [of example_submitter 5000
      "(new_request 1 AGG 1 1000 0)\<lparr>Status := FAILED\<rparr>"
      "[(new_request 1 AGG 1 1000 0)\<lparr>Status := FAILED\<rparr>]"]
  by (simp add: example_submitter_def new_request_def next_id_def)

end
